theory Spec2Isabelle
  imports Complex_Main "HOL-Library.Sublist"
begin

section \<open>Shared helpers: JavaScript strings and promises\<close>

text \<open>
  Both pages are React components (\<^verbatim>\<open>src/app/page.tsx\<close>, the five-stage page, and
  \<^verbatim>\<open>src/unnamed/part_000\<close>, the seven-stage pipeline page). Strings are modelled as
  \<^typ>\<open>string\<close> (one \<^typ>\<open>char\<close> per code unit below 256), a \<^verbatim>\<open>Set\<close> as a HOL set
  (only \<^verbatim>\<open>has\<close>, \<^verbatim>\<open>add\<close> and \<^verbatim>\<open>delete\<close> are used, never the iteration order), and a
  \<^verbatim>\<open>Date\<close> as a natural number of milliseconds. A number is modelled as a \<^typ>\<open>rat\<close>: the
  numbers of the pages are literals, array indices and numbers of a JSON payload, and the
  pages do no arithmetic on them beyond \<^verbatim>\<open>i + 1\<close> on an array index. How a template
  literal prints a number is the business of the JavaScript runtime, not of the pages: the
  export takes that rendering as a parameter, of type \<^typ>\<open>rat \<Rightarrow> string\<close>, and nothing
  below depends on what it prints.
\<close>

text \<open>White space removed by \<^verbatim>\<open>String.prototype.trim\<close>, for the code units below 256:
  tab, line feed, vertical tab, form feed, carriage return, space and no-break space.\<close>

definition is_white_space :: "char \<Rightarrow> bool" where
  "is_white_space c = (of_char c \<in> {9, 10, 11, 12, 13, 32, 160 :: nat})"

definition trim :: "string \<Rightarrow> string" where
  "trim s = rev (dropWhile is_white_space (rev (dropWhile is_white_space s)))"

text \<open>\<^verbatim>\<open>Array.prototype.join\<close>.\<close>

fun join :: "string \<Rightarrow> string list \<Rightarrow> string" where
  "join sep [] = []"
| "join sep [x] = x"
| "join sep (x # y # ys) = x @ sep @ join sep (y # ys)"

text \<open>The text up to the first line feed.\<close>

definition first_line :: "string \<Rightarrow> string" where
  "first_line s = takeWhile (\<lambda>c. c \<noteq> CHR 0x0A) s"

text \<open>\<^verbatim>\<open>String.prototype.includes\<close>: the needle occurs as a contiguous run.\<close>

fun string_includes :: "string \<Rightarrow> string \<Rightarrow> bool" where
  "string_includes [] needle = (needle = [])"
| "string_includes (c # cs) needle = (prefix needle (c # cs) \<or> string_includes cs needle)"

text \<open>An awaited promise either resolves with a value or rejects (the \<^verbatim>\<open>catch\<close> branch
  of the caller runs).\<close>

datatype 'a outcome = Resolves 'a | Rejects

text \<open>
  Modelled from the spec: the declarations of \<^verbatim>\<open>callAIAgent\<close> and \<^verbatim>\<open>uploadFiles\<close>
  (\<^verbatim>\<open>@/lib/aiAgent\<close>) are not among the sources. The spec gives the reply of the
  coordinator as \<^verbatim>\<open>{success: bool, response: {status: string, result: payload}}\<close> and
  the reply of the upload transport as
  \<^verbatim>\<open>{success: bool, asset_ids: ordered list of string, error?: string}\<close>.
\<close>

record 'r AgentResponse =
  status :: string
  result :: 'r

record 'r AIAgentResponse =
  success :: bool
  response :: "'r AgentResponse"

record UploadResult =
  success :: bool
  asset_ids :: "string list"
  error :: "string option"

text \<open>A \<^verbatim>\<open>File\<close>, as far as the pages read it.\<close>

record File =
  name :: string
  type :: string

definition DISCOVERY_COORDINATOR :: string where
  "DISCOVERY_COORDINATOR = ''6985a8c9e2c0086a4fc43c18''"


section \<open>The seven-stage pipeline page: data\<close>

text \<open>The interfaces of \<^verbatim>\<open>src/unnamed/part_000\<close>. A value of type \<^verbatim>\<open>any\<close> is an
  arbitrary JSON value; the page never reads one.\<close>

datatype any = JNull | JBool bool | JNumber rat | JString string | JArray "any list"
  | JObject "(string \<times> any) list"

record ConversationState =
  user_input_received :: bool
  summarization_prompt_provided :: bool
  ready_to_proceed :: bool

record aggregated_results_any =
  document_info :: any
  paper_analysis :: any
  summary :: any
  recommendations :: "any list"
  quality_validation :: any

record DiscoveryCoordinatorResult =
  workflow_stage :: string
  conversation_state :: ConversationState
  aggregated_results :: aggregated_results_any
  next_action :: string
  user_message :: string
  errors :: "string list"

record section_chunk =
  section_name :: string
  content :: string
  chunk_id :: rat

record DocumentIngestionResult =
  title :: string
  authors :: "string list"
  abstract :: string
  sections :: "section_chunk list"
  references :: "string list"
  validation_status :: string
  validation_errors :: "string list"

record methodology =
  approach :: string
  techniques :: "string list"
  section_citation :: string

record results =
  key_findings :: "string list"
  section_citation :: string

record limitations =
  identified_limitations :: "string list"
  section_citation :: string

record key_claim =
  claim :: string
  section_citation :: string
  confidence :: string

record paper_structure =
  sections_analyzed :: "string list"
  has_clear_structure :: bool

record UnderstandingResult_p =
  problem_statement :: string
  methodology :: methodology
  results :: results
  limitations :: limitations
  key_claims :: "key_claim list"
  paper_structure :: paper_structure

record KeyPoint =
  point :: string
  section_reference :: string

record SummarizationResult =
  summary :: string
  focus_areas_addressed :: "string list"
  tone :: string
  depth_level :: string
  key_points :: "KeyPoint list"
  uncertainties :: "string list"
  word_count :: rat

record similarity_factors =
  semantic_similarity :: rat
  citation_overlap :: rat
  methodology_match :: rat
  recency_score :: rat
  impact_score :: rat
  interdisciplinary_relevance :: rat

record Recommendation_p =
  rank :: rat
  title :: string
  authors :: "string list"
  year :: rat
  source :: string
  doi_or_arxiv_id :: string
  relevance_score :: rat
  relevance_explanation :: string
  similarity_factors :: similarity_factors
  abstract_snippet :: string

record summary_validation =
  coherence_score :: rat
  factual_grounding_verified :: bool
  hallucination_flags :: "string list"
  redundancy_removed :: "string list"
  issues_found :: "string list"

record recommendations_validation =
  relevance_verified :: bool
  all_recommendations_appropriate :: bool
  issues_found :: "string list"
  recommendations_to_remove :: "rat list"

record QualityControlResult =
  validation_status :: string
  summary_validation :: summary_validation
  recommendations_validation :: recommendations_validation
  uncertainty_flags :: "string list"
  quality_score :: rat
  approved_for_delivery :: bool
  corrections_applied :: "string list"

datatype PipelineStage = upload | parsing | understanding | summarizing | finding_papers
  | quality_check | complete

datatype role = user | assistant

text \<open>\<^verbatim>\<open>ChatMessage\<close>, shared by both pages; the pipeline page declares no
  \<^verbatim>\<open>timestamp\<close> and leaves it absent.\<close>

record ChatMessage =
  role :: role
  content :: string
  timestamp :: "nat option"

text \<open>The state cells (\<^verbatim>\<open>useState\<close>) of the pipeline page.\<close>

record pipeline =
  pdfFile :: "File option"
  doiInput :: string
  arxivInput :: string
  dragActive :: bool
  chatMessages :: "ChatMessage list"
  userInput :: string
  isLoading :: bool
  currentStage :: PipelineStage
  stagesCompleted :: "PipelineStage set"
  documentInfo :: "DocumentIngestionResult option"
  understandingResult :: "UnderstandingResult_p option"
  summaryResult :: "SummarizationResult option"
  recommendations :: "Recommendation_p list"
  qualityResult :: "QualityControlResult option"
  expandedSections :: "string set"
  sidebarOpen :: bool
  showResults :: bool

text \<open>The callbacks the page hands to \<^verbatim>\<open>setTimeout\<close>.\<close>

datatype timer = SimulateDocumentIngestion | SimulateUnderstanding | SimulateSummarization
  | SimulateRecommendations | SimulateQualityControl

text \<open>What a handler of the pipeline page does, in program order: a call of a state setter
  (\<open>P_Append\<close> is the functional update \<^verbatim>\<open>prev => [...prev, m]\<close>, \<open>P_MarkComplete\<close> the
  functional update \<^verbatim>\<open>prev => new Set([...prev, stage])\<close>), a call of the coordinator,
  a timer, a console message, a download.\<close>

datatype pipeline_effect =
    P_SetChatMessages "ChatMessage list"
  | P_Append ChatMessage
  | P_SetUserInput string
  | P_SetIsLoading bool
  | P_SetCurrentStage PipelineStage
  | P_MarkComplete PipelineStage
  | P_SetShowResults bool
  | P_SetDocumentInfo DocumentIngestionResult
  | P_SetUnderstandingResult UnderstandingResult_p
  | P_SetSummaryResult SummarizationResult
  | P_SetRecommendations "Recommendation_p list"
  | P_SetQualityResult QualityControlResult
  | P_SetExpandedSections "string set"
  | P_CallAIAgent string string
  | P_SetTimeout timer nat
  | P_ConsoleError
  | P_Download string string


section \<open>The five-stage page: data\<close>

text \<open>The interfaces of \<^verbatim>\<open>src/app/page.tsx\<close>. The nested object types of
  \<^verbatim>\<open>UnderstandingResult\<close> and \<^verbatim>\<open>KeyPoint\<close> are the ones declared above.\<close>

record DocumentInfo =
  title :: string
  authors :: "string list"
  abstract :: string
  year :: "rat option"

record UnderstandingResult =
  problem_statement :: string
  methodology :: methodology
  results :: results
  limitations :: limitations
  key_claims :: "key_claim list"

record Recommendation =
  rank :: rat
  title :: string
  authors :: "string list"
  year :: rat
  source :: string
  doi_or_arxiv_id :: string
  relevance_score :: rat
  relevance_explanation :: string
  abstract_snippet :: string

datatype ProcessingStage = idle | uploading | conversation | analyzing | complete

text \<open>
  Modelled from the spec: the page declares no type for the structured payload of a reply
  (\<^verbatim>\<open>result.response.result\<close>); the return type of \<^verbatim>\<open>callAIAgent\<close> is not among the
  sources. The spec gives it a free-text \<^verbatim>\<open>user_message\<close>, an optional \<^verbatim>\<open>next_action\<close>
  and an optional \<^verbatim>\<open>aggregated_results\<close> object of the shapes above, every field of which
  may be absent. \<open>None\<close> is an absent (or \<^verbatim>\<open>null\<close>) field; a present object or array is
  truthy in JavaScript, a present string is truthy when it is not empty.
\<close>

record summary_payload =
  key_points :: "KeyPoint list option"

record quality_validation_payload =
  quality_score :: "rat option"

record AggregatedResults =
  document_info :: "DocumentInfo option"
  paper_analysis :: "UnderstandingResult option"
  summary :: "summary_payload option"
  recommendations :: "Recommendation list option"
  quality_validation :: "quality_validation_payload option"

record CoordinatorPayload =
  user_message :: "string option"
  next_action :: "string option"
  aggregated_results :: "AggregatedResults option"

text \<open>The state cells (\<^verbatim>\<open>useState\<close>) of the five-stage page.\<close>

record session =
  pdfFile :: "File option"
  doiInput :: string
  arxivInput :: string
  dragActive :: bool
  uploadedAssetIds :: "string list"
  chatMessages :: "ChatMessage list"
  userInput :: string
  isLoading :: bool
  stage :: ProcessingStage
  documentInfo :: "DocumentInfo option"
  understanding :: "UnderstandingResult option"
  keyTakeaways :: "KeyPoint list"
  recommendations :: "Recommendation list"
  qualityScore :: "rat option"
  expandedSections :: "string set"
  sidebarOpen :: bool

text \<open>The collaborators of one invocation of a handler: the upload transport, the
  coordinator (message, agent identifier, assets) and the clock: \<open>clock env k\<close> is the value
  of the \<open>k\<close>-th \<^verbatim>\<open>new Date()\<close> the invocation evaluates.\<close>

record env =
  uploadFiles :: "File \<Rightarrow> UploadResult outcome"
  callAIAgent :: "string \<Rightarrow> string \<Rightarrow> string list \<Rightarrow> CoordinatorPayload AIAgentResponse outcome"
  clock :: "nat \<Rightarrow> nat"

text \<open>What a handler of the five-stage page does, in program order: a call of a state
  setter (\<open>AppendChatMessage\<close> is the functional update \<^verbatim>\<open>prev => [...prev, m]\<close>), a call
  of a collaborator, a console message, a download (file name, text).\<close>

datatype effect =
    SetPdfFile "File option"
  | SetDoiInput string
  | SetArxivInput string
  | SetDragActive bool
  | SetUploadedAssetIds "string list"
  | SetChatMessages "ChatMessage list"
  | AppendChatMessage ChatMessage
  | SetUserInput string
  | SetIsLoading bool
  | SetStage ProcessingStage
  | SetDocumentInfo "DocumentInfo option"
  | SetUnderstanding "UnderstandingResult option"
  | SetKeyTakeaways "KeyPoint list"
  | SetRecommendations "Recommendation list"
  | SetQualityScore "rat option"
  | SetExpandedSections "string set"
  | SetSidebarOpen bool
  | UploadFiles File
  | CallAIAgent string string "string list"
  | ConsoleError
  | Download string string

text \<open>The state after a setter call; the other effects leave the state cells alone.\<close>

fun apply_effect :: "effect \<Rightarrow> session \<Rightarrow> session" where
  "apply_effect (SetPdfFile v) s = s\<lparr>pdfFile := v\<rparr>"
| "apply_effect (SetDoiInput v) s = s\<lparr>doiInput := v\<rparr>"
| "apply_effect (SetArxivInput v) s = s\<lparr>arxivInput := v\<rparr>"
| "apply_effect (SetDragActive v) s = s\<lparr>dragActive := v\<rparr>"
| "apply_effect (SetUploadedAssetIds v) s = s\<lparr>uploadedAssetIds := v\<rparr>"
| "apply_effect (SetChatMessages v) s = s\<lparr>chatMessages := v\<rparr>"
| "apply_effect (AppendChatMessage m) s = s\<lparr>chatMessages := chatMessages s @ [m]\<rparr>"
| "apply_effect (SetUserInput v) s = s\<lparr>userInput := v\<rparr>"
| "apply_effect (SetIsLoading v) s = s\<lparr>isLoading := v\<rparr>"
| "apply_effect (SetStage v) s = s\<lparr>stage := v\<rparr>"
| "apply_effect (SetDocumentInfo v) s = s\<lparr>documentInfo := v\<rparr>"
| "apply_effect (SetUnderstanding v) s = s\<lparr>understanding := v\<rparr>"
| "apply_effect (SetKeyTakeaways v) s = s\<lparr>keyTakeaways := v\<rparr>"
| "apply_effect (SetRecommendations v) s = s\<lparr>recommendations := v\<rparr>"
| "apply_effect (SetQualityScore v) s = s\<lparr>qualityScore := v\<rparr>"
| "apply_effect (SetExpandedSections v) s = s\<lparr>expandedSections := v\<rparr>"
| "apply_effect (SetSidebarOpen v) s = s\<lparr>sidebarOpen := v\<rparr>"
| "apply_effect (UploadFiles f) s = s"
| "apply_effect (CallAIAgent m a assets) s = s"
| "apply_effect ConsoleError s = s"
| "apply_effect (Download n t) s = s"

text \<open>The state once all setter calls of a handler are committed, in order.\<close>

definition run :: "session \<Rightarrow> effect list \<Rightarrow> session" where
  "run s es = fold apply_effect es s"

text \<open>The stage values a handler writes and the coordinator calls it makes, in order.\<close>

fun stage_writes :: "effect list \<Rightarrow> ProcessingStage list" where
  "stage_writes [] = []"
| "stage_writes (SetStage v # es) = v # stage_writes es"
| "stage_writes (e # es) = stage_writes es"

fun agent_calls :: "effect list \<Rightarrow> (string \<times> string \<times> string list) list" where
  "agent_calls [] = []"
| "agent_calls (CallAIAgent m a assets # es) = (m, a, assets) # agent_calls es"
| "agent_calls (e # es) = agent_calls es"

text \<open>The position of a stage in the progression
  \<^verbatim>\<open>idle, uploading, conversation, analyzing, complete\<close>.\<close>

fun stage_rank :: "ProcessingStage \<Rightarrow> nat" where
  "stage_rank idle = 0"
| "stage_rank uploading = 1"
| "stage_rank conversation = 2"
| "stage_rank analyzing = 3"
| "stage_rank complete = 4"

definition initial :: session where
  "initial = \<lparr>pdfFile = None, doiInput = [], arxivInput = [], dragActive = False,
     uploadedAssetIds = [], chatMessages = [], userInput = [], isLoading = False,
     stage = idle, documentInfo = None, understanding = None, keyTakeaways = [],
     recommendations = [], qualityScore = None, expandedSections = {''problem''},
     sidebarOpen = False\<rparr>"


section \<open>The five-stage page: handlers\<close>

text \<open>A handler reads the state cells of the render it was created in (\<open>s\<close>) and yields
  its effects in program order. An awaited call is answered by the environment of the
  invocation, and a handler runs to its end before the next one starts.\<close>

text \<open>\<^verbatim>\<open>x || fallback\<close> on an optional string.\<close>

definition or_else :: "string option \<Rightarrow> string \<Rightarrow> string" where
  "or_else x fallback = (case x of None \<Rightarrow> fallback | Some v \<Rightarrow> if v = [] then fallback else v)"

text \<open>An optional string inside a template literal.\<close>

definition template_string :: "string option \<Rightarrow> string" where
  "template_string x = (case x of None \<Rightarrow> ''undefined'' | Some v \<Rightarrow> v)"

definition handleDrag :: "string \<Rightarrow> session \<Rightarrow> effect list" where
  "handleDrag event_type s =
     (if event_type = ''dragenter'' \<or> event_type = ''dragover'' then [SetDragActive True]
      else if event_type = ''dragleave'' then [SetDragActive False]
      else [])"

definition handleDrop :: "File list \<Rightarrow> session \<Rightarrow> effect list" where
  "handleDrop files s =
     SetDragActive False #
     (case files of
        [] \<Rightarrow> []
      | file # _ \<Rightarrow> if type file = ''application/pdf'' then [SetPdfFile (Some file)] else [])"

definition handleFileChange :: "File list \<Rightarrow> session \<Rightarrow> effect list" where
  "handleFileChange files s = (case files of [] \<Rightarrow> [] | file # _ \<Rightarrow> [SetPdfFile (Some file)])"

definition toggleSection :: "string \<Rightarrow> session \<Rightarrow> effect list" where
  "toggleSection section s =
     (let newExpanded = expandedSections s
      in [SetExpandedSections
            (if section \<in> newExpanded then newExpanded - {section}
             else insert section newExpanded)])"

definition resetAnalysis :: "session \<Rightarrow> effect list" where
  "resetAnalysis s =
     [SetPdfFile None, SetDoiInput [], SetArxivInput [], SetUploadedAssetIds [],
      SetChatMessages [], SetUserInput [], SetStage idle, SetDocumentInfo None,
      SetUnderstanding None, SetKeyTakeaways [], SetRecommendations [],
      SetQualityScore None, SetExpandedSections {''problem''}]"

text \<open>The \<^verbatim>\<open>catch\<close> block of \<^verbatim>\<open>analyzeDocument\<close>; \<open>t\<close> is its \<^verbatim>\<open>new Date()\<close>.\<close>

definition analyzeDocument_catch :: "nat \<Rightarrow> effect list" where
  "analyzeDocument_catch t =
     [ConsoleError,
      SetChatMessages
        [\<lparr>role = assistant, content = ''An error occurred during upload. Please try again.'',
          timestamp = Some t\<rparr>],
      SetIsLoading False,
      SetStage idle]"

definition initialMessage :: "session \<Rightarrow> string" where
  "initialMessage s =
     ''I've uploaded a research paper'' @
     (case pdfFile s of None \<Rightarrow> [] | Some f \<Rightarrow> '' (PDF: '' @ name f @ '')'') @
     (if doiInput s \<noteq> [] then '' (DOI: '' @ doiInput s @ '')'' else []) @
     (if arxivInput s \<noteq> [] then '' (arXiv: '' @ arxivInput s @ '')'' else []) @
     ''. Please help me analyze it.''"

text \<open>\<^verbatim>\<open>analyzeDocument\<close> from "Start conversation with Discovery Coordinator" on;
  \<open>assetIds\<close> is the local variable of that name.\<close>

definition analyzeDocument_conversation :: "env \<Rightarrow> session \<Rightarrow> string list \<Rightarrow> effect list" where
  "analyzeDocument_conversation env s assetIds =
     [SetStage conversation,
      SetChatMessages
        [\<lparr>role = user, content = initialMessage s, timestamp = Some (clock env 0)\<rparr>],
      CallAIAgent (initialMessage s) DISCOVERY_COORDINATOR assetIds] @
     (case callAIAgent env (initialMessage s) DISCOVERY_COORDINATOR assetIds of
        Rejects \<Rightarrow> analyzeDocument_catch (clock env 1)
      | Resolves r \<Rightarrow>
          (if AIAgentResponse.success r \<and> status (response r) = ''success'' then
             [AppendChatMessage
                \<lparr>role = assistant,
                 content = or_else (user_message (result (response r)))
                   ''What aspects of the paper would you like me to focus on? (e.g., methodology, limitations, practical applications)'',
                 timestamp = Some (clock env 1)\<rparr>]
           else
             [AppendChatMessage
                \<lparr>role = assistant,
                 content = ''I encountered an issue starting the analysis. Please try again.'',
                 timestamp = Some (clock env 1)\<rparr>]) @
          [SetIsLoading False])"

definition analyzeDocument :: "env \<Rightarrow> session \<Rightarrow> effect list" where
  "analyzeDocument env s =
     (if pdfFile s = None \<and> doiInput s = [] \<and> arxivInput s = [] then []
      else
        [SetIsLoading True, SetStage uploading] @
        (case pdfFile s of
           None \<Rightarrow> analyzeDocument_conversation env s []
         | Some f \<Rightarrow>
             UploadFiles f #
             (case uploadFiles env f of
                Rejects \<Rightarrow> analyzeDocument_catch (clock env 0)
              | Resolves uploadResult \<Rightarrow>
                  if UploadResult.success uploadResult then
                    SetUploadedAssetIds (asset_ids uploadResult) #
                    analyzeDocument_conversation env s (asset_ids uploadResult)
                  else
                    [SetChatMessages
                       [\<lparr>role = assistant,
                         content = ''Failed to upload PDF: '' @
                           template_string (error uploadResult) @ ''. Please try again.'',
                         timestamp = Some (clock env 0)\<rparr>],
                     SetIsLoading False,
                     SetStage idle])))"

text \<open>The Result Aggregator: the body of \<^verbatim>\<open>if (data.aggregated_results)\<close> in
  \<^verbatim>\<open>sendMessage\<close>.\<close>

definition aggregate :: "AggregatedResults \<Rightarrow> effect list" where
  "aggregate ar =
     [SetStage analyzing] @
     (case AggregatedResults.document_info ar of
        None \<Rightarrow> [] | Some d \<Rightarrow> [SetDocumentInfo (Some d)]) @
     (case AggregatedResults.paper_analysis ar of
        None \<Rightarrow> [] | Some u \<Rightarrow> [SetUnderstanding (Some u)]) @
     (case AggregatedResults.summary ar of
        None \<Rightarrow> []
      | Some sm \<Rightarrow>
          [SetKeyTakeaways (case summary_payload.key_points sm of None \<Rightarrow> [] | Some ks \<Rightarrow> ks)]) @
     (case AggregatedResults.recommendations ar of
        None \<Rightarrow> [] | Some rs \<Rightarrow> [SetRecommendations rs]) @
     (case AggregatedResults.quality_validation ar of
        None \<Rightarrow> []
      | Some q \<Rightarrow> [SetQualityScore (quality_validation_payload.quality_score q)]) @
     [SetStage complete]"

definition sendMessage :: "env \<Rightarrow> session \<Rightarrow> effect list" where
  "sendMessage env s =
     (if trim (userInput s) = [] \<or> isLoading s then []
      else
        (let message = trim (userInput s) in
         [SetUserInput [],
          AppendChatMessage \<lparr>role = user, content = message, timestamp = Some (clock env 0)\<rparr>,
          SetIsLoading True,
          CallAIAgent message DISCOVERY_COORDINATOR (uploadedAssetIds s)] @
         (case callAIAgent env message DISCOVERY_COORDINATOR (uploadedAssetIds s) of
            Rejects \<Rightarrow>
              [ConsoleError,
               AppendChatMessage
                 \<lparr>role = assistant, content = ''An error occurred. Please try again.'',
                  timestamp = Some (clock env 1)\<rparr>,
               SetIsLoading False]
          | Resolves r \<Rightarrow>
              (if AIAgentResponse.success r \<and> status (response r) = ''success'' then
                 (let data = result (response r) in
                  AppendChatMessage
                    \<lparr>role = assistant,
                     content = or_else (user_message data) ''Processing your request...'',
                     timestamp = Some (clock env 1)\<rparr> #
                  (case CoordinatorPayload.aggregated_results data of
                     None \<Rightarrow> []
                   | Some ar \<Rightarrow> aggregate ar))
               else
                 [AppendChatMessage
                    \<lparr>role = assistant,
                     content = ''I encountered an issue processing your request. Please try again.'',
                     timestamp = Some (clock env 1)\<rparr>]) @
              [SetIsLoading False])))"

text \<open>The regular expression \<^verbatim>\<open>/[^a-z0-9]/gi\<close> keeps the ASCII letters and digits.\<close>

definition is_alphanumeric :: "char \<Rightarrow> bool" where
  "is_alphanumeric c =
     (let n = (of_char c :: nat)
      in (48 \<le> n \<and> n \<le> 57) \<or> (65 \<le> n \<and> n \<le> 90) \<or> (97 \<le> n \<and> n \<le> 122))"

text \<open>The text of the export; \<open>number_to_string\<close> is the runtime's rendering of a number
  inside a template literal.\<close>

definition export_content :: "(rat \<Rightarrow> string) \<Rightarrow> DocumentInfo \<Rightarrow> session \<Rightarrow> string" where
  "export_content number_to_string d s =
     ''# '' @ DocumentInfo.title d @ ''\<newline>\<newline>'' @
     (if DocumentInfo.authors d \<noteq> []
      then ''**Authors:** '' @ join '', '' (DocumentInfo.authors d) @ ''\<newline>\<newline>''
      else []) @
     (case understanding s of
        None \<Rightarrow> []
      | Some u \<Rightarrow>
          if UnderstandingResult.problem_statement u \<noteq> []
          then ''## Problem Statement\<newline>'' @ UnderstandingResult.problem_statement u @
            ''\<newline>\<newline>''
          else []) @
     (if keyTakeaways s \<noteq> []
      then ''## Key Takeaways\<newline>'' @
        join ''\<newline>''
          (map (\<lambda>(i, k). number_to_string (of_nat i + 1) @ ''. '' @ point k)
             (enumerate 0 (keyTakeaways s))) @
        ''\<newline>\<newline>''
      else []) @
     (if recommendations s \<noteq> []
      then ''## Related Papers\<newline>'' @
        join ''\<newline>''
          (map (\<lambda>r. ''- '' @ Recommendation.title r @ '' ('' @
                  number_to_string (Recommendation.year r) @ '')'')
             (recommendations s)) @
        ''\<newline>''
      else [])"

definition exportSummary :: "(rat \<Rightarrow> string) \<Rightarrow> session \<Rightarrow> effect list" where
  "exportSummary number_to_string s =
     (case documentInfo s of
        None \<Rightarrow> []
      | Some d \<Rightarrow>
          [Download
             (map (\<lambda>c. if is_alphanumeric c then c else CHR ''_'') (DocumentInfo.title d) @
              ''_summary.md'')
             (export_content number_to_string d s)])"

text \<open>The artifact an export produces, if any: file name and text.\<close>

fun downloads :: "effect list \<Rightarrow> (string \<times> string) list" where
  "downloads [] = []"
| "downloads (Download n t # es) = (n, t) # downloads es"
| "downloads (e # es) = downloads es"

text \<open>The user's actions on the page, one per handler and inline callback of the markup,
  and the session they drive.\<close>

datatype event =
    HandleDrag string
  | HandleDrop "File list"
  | HandleFileChange "File list"
  | ToggleSection string
  | ResetAnalysis
  | AnalyzeDocument env
  | SendMessage env
  | ExportSummary "rat \<Rightarrow> string"
  | ChangeDoiInput string
  | ChangeArxivInput string
  | ChangeUserInput string
  | ToggleSidebar

fun handler :: "event \<Rightarrow> session \<Rightarrow> effect list" where
  "handler (HandleDrag t) s = handleDrag t s"
| "handler (HandleDrop fs) s = handleDrop fs s"
| "handler (HandleFileChange fs) s = handleFileChange fs s"
| "handler (ToggleSection k) s = toggleSection k s"
| "handler ResetAnalysis s = resetAnalysis s"
| "handler (AnalyzeDocument env) s = analyzeDocument env s"
| "handler (SendMessage env) s = sendMessage env s"
| "handler (ExportSummary number_to_string) s = exportSummary number_to_string s"
| "handler (ChangeDoiInput v) s = [SetDoiInput v]"
| "handler (ChangeArxivInput v) s = [SetArxivInput v]"
| "handler (ChangeUserInput v) s = [SetUserInput v]"
| "handler ToggleSidebar s = [SetSidebarOpen (\<not> sidebarOpen s)]"

definition step :: "event \<Rightarrow> session \<Rightarrow> session" where
  "step ev s = run s (handler ev s)"

text \<open>A session: the state after a list of events, and all effects along the way.\<close>

fun steps :: "event list \<Rightarrow> session \<Rightarrow> session" where
  "steps [] s = s"
| "steps (ev # evs) s = steps evs (step ev s)"

fun trace :: "event list \<Rightarrow> session \<Rightarrow> effect list" where
  "trace [] s = []"
| "trace (ev # evs) s = handler ev s @ trace evs (step ev s)"

text \<open>The events that stay within one analysis: all but the session reset and the start
  of a new analysis.\<close>

fun within_analysis :: "event \<Rightarrow> bool" where
  "within_analysis ResetAnalysis = False"
| "within_analysis (AnalyzeDocument env) = False"
| "within_analysis ev = True"

text \<open>The events that neither reset, start an analysis nor send a turn.\<close>

fun no_exchange :: "event \<Rightarrow> bool" where
  "no_exchange ResetAnalysis = False"
| "no_exchange (AnalyzeDocument env) = False"
| "no_exchange (SendMessage env) = False"
| "no_exchange ev = True"

section \<open>The seven-stage pipeline page: handlers\<close>

text \<open>The handlers of \<^verbatim>\<open>src/unnamed/part_000\<close> that set the stage, the loading flag,
  the log, the results or the expanded sections, and the export. Its drag-and-drop
  handlers and field callbacks are those of the five-stage page.\<close>

fun apply_pipeline_effect :: "pipeline_effect \<Rightarrow> pipeline \<Rightarrow> pipeline" where
  "apply_pipeline_effect (P_SetChatMessages v) s = s\<lparr>pipeline.chatMessages := v\<rparr>"
| "apply_pipeline_effect (P_Append m) s =
     s\<lparr>pipeline.chatMessages := pipeline.chatMessages s @ [m]\<rparr>"
| "apply_pipeline_effect (P_SetUserInput v) s = s\<lparr>pipeline.userInput := v\<rparr>"
| "apply_pipeline_effect (P_SetIsLoading v) s = s\<lparr>pipeline.isLoading := v\<rparr>"
| "apply_pipeline_effect (P_SetCurrentStage v) s = s\<lparr>currentStage := v\<rparr>"
| "apply_pipeline_effect (P_MarkComplete v) s =
     s\<lparr>stagesCompleted := insert v (stagesCompleted s)\<rparr>"
| "apply_pipeline_effect (P_SetShowResults v) s = s\<lparr>showResults := v\<rparr>"
| "apply_pipeline_effect (P_SetDocumentInfo v) s = s\<lparr>pipeline.documentInfo := Some v\<rparr>"
| "apply_pipeline_effect (P_SetUnderstandingResult v) s = s\<lparr>understandingResult := Some v\<rparr>"
| "apply_pipeline_effect (P_SetSummaryResult v) s = s\<lparr>summaryResult := Some v\<rparr>"
| "apply_pipeline_effect (P_SetRecommendations v) s = s\<lparr>pipeline.recommendations := v\<rparr>"
| "apply_pipeline_effect (P_SetQualityResult v) s = s\<lparr>qualityResult := Some v\<rparr>"
| "apply_pipeline_effect (P_SetExpandedSections v) s = s\<lparr>pipeline.expandedSections := v\<rparr>"
| "apply_pipeline_effect (P_CallAIAgent m a) s = s"
| "apply_pipeline_effect (P_SetTimeout t ms) s = s"
| "apply_pipeline_effect P_ConsoleError s = s"
| "apply_pipeline_effect (P_Download n t) s = s"

definition run_pipeline :: "pipeline \<Rightarrow> pipeline_effect list \<Rightarrow> pipeline" where
  "run_pipeline s es = fold apply_pipeline_effect es s"

definition initial_pipeline :: pipeline where
  "initial_pipeline = \<lparr>pipeline.pdfFile = None, pipeline.doiInput = [],
     pipeline.arxivInput = [], pipeline.dragActive = False, pipeline.chatMessages = [],
     pipeline.userInput = [], pipeline.isLoading = False, currentStage = upload,
     stagesCompleted = {}, pipeline.documentInfo = None, understandingResult = None,
     summaryResult = None, pipeline.recommendations = [], qualityResult = None,
     pipeline.expandedSections = {''problem''}, pipeline.sidebarOpen = True,
     showResults = False\<rparr>"

definition toggleSection_p :: "string \<Rightarrow> pipeline \<Rightarrow> pipeline_effect list" where
  "toggleSection_p section s =
     (let newExpanded = pipeline.expandedSections s
      in [P_SetExpandedSections
            (if section \<in> newExpanded then newExpanded - {section}
             else insert section newExpanded)])"

definition markStageComplete :: "PipelineStage \<Rightarrow> pipeline_effect list" where
  "markStageComplete st = [P_MarkComplete st]"

definition initialMessage_p :: "pipeline \<Rightarrow> string" where
  "initialMessage_p s =
     ''I've uploaded a paper'' @
     (case pipeline.pdfFile s of None \<Rightarrow> [] | Some f \<Rightarrow> '' (PDF: '' @ name f @ '')'') @
     (if pipeline.doiInput s \<noteq> [] then '' (DOI: '' @ pipeline.doiInput s @ '')'' else []) @
     (if pipeline.arxivInput s \<noteq> [] then '' (arXiv: '' @ pipeline.arxivInput s @ '')'' else []) @
     ''. Please help me analyze it.''"

text \<open>The coordinator of the pipeline page takes the message and the agent identifier
  only.\<close>

type_synonym agent = "string \<Rightarrow> string \<Rightarrow> DiscoveryCoordinatorResult AIAgentResponse outcome"

definition analyzeForm :: "agent \<Rightarrow> pipeline \<Rightarrow> pipeline_effect list" where
  "analyzeForm agent s =
     (if pipeline.pdfFile s = None \<and> pipeline.doiInput s = [] \<and> pipeline.arxivInput s = []
      then []
      else
        [P_SetIsLoading True,
         P_SetCurrentStage parsing,
         P_SetShowResults True,
         P_SetChatMessages
           [\<lparr>role = user, content = initialMessage_p s, timestamp = None\<rparr>],
         P_CallAIAgent (initialMessage_p s) DISCOVERY_COORDINATOR] @
        (case agent (initialMessage_p s) DISCOVERY_COORDINATOR of
           Rejects \<Rightarrow> [P_ConsoleError, P_SetIsLoading False]
         | Resolves r \<Rightarrow>
             if AIAgentResponse.success r \<and> status (response r) = ''success'' then
               [P_Append
                  \<lparr>role = assistant,
                   content = DiscoveryCoordinatorResult.user_message (result (response r)),
                   timestamp = None\<rparr>,
                P_SetIsLoading False]
             else []))"

definition sendMessage_p :: "agent \<Rightarrow> pipeline \<Rightarrow> pipeline_effect list" where
  "sendMessage_p agent s =
     (if trim (pipeline.userInput s) = [] \<or> pipeline.isLoading s then []
      else
        (let message = pipeline.userInput s in
         [P_SetUserInput [],
          P_Append \<lparr>role = user, content = message, timestamp = None\<rparr>,
          P_SetIsLoading True,
          P_CallAIAgent message DISCOVERY_COORDINATOR] @
         (case agent message DISCOVERY_COORDINATOR of
            Rejects \<Rightarrow> [P_ConsoleError, P_SetIsLoading False]
          | Resolves r \<Rightarrow>
              (if AIAgentResponse.success r \<and> status (response r) = ''success'' then
                 (let data = result (response r) in
                  P_Append
                    \<lparr>role = assistant,
                     content = DiscoveryCoordinatorResult.user_message data,
                     timestamp = None\<rparr> #
                  (if DiscoveryCoordinatorResult.next_action data = ''trigger_ingestion''
                   then [P_SetCurrentStage parsing, P_SetTimeout SimulateDocumentIngestion 1500]
                   else []))
               else []) @
              [P_SetIsLoading False])))"

definition exportSummary_p :: "pipeline \<Rightarrow> pipeline_effect list" where
  "exportSummary_p s =
     (case summaryResult s of
        None \<Rightarrow> []
      | Some sr \<Rightarrow>
          [P_Download ''summary.md''
             (''# Research Paper Summary\<newline>\<newline>'' @ SummarizationResult.summary sr @
              ''\<newline>\<newline>## Key Points\<newline>'' @
              join ''\<newline>''
                (map (\<lambda>p. ''- '' @ point p @ '' ('' @ section_reference p @ '')'')
                   (SummarizationResult.key_points sr)))])"

fun pipeline_downloads :: "pipeline_effect list \<Rightarrow> (string \<times> string) list" where
  "pipeline_downloads [] = []"
| "pipeline_downloads (P_Download n t # es) = (n, t) # pipeline_downloads es"
| "pipeline_downloads (e # es) = pipeline_downloads es"

fun pipeline_agent_calls :: "pipeline_effect list \<Rightarrow> (string \<times> string) list" where
  "pipeline_agent_calls [] = []"
| "pipeline_agent_calls (P_CallAIAgent m a # es) = (m, a) # pipeline_agent_calls es"
| "pipeline_agent_calls (e # es) = pipeline_agent_calls es"


text \<open>The scripted pipeline: each step marks the stage that ends, moves the stage
  pointer, stores its mock result and schedules the next step.\<close>

definition mockDoc :: DocumentIngestionResult where
  "mockDoc =
     \<lparr>DocumentIngestionResult.title = ''Attention Is All You Need'',
      DocumentIngestionResult.authors = [''Ashish Vaswani'', ''Noam Shazeer'', ''Niki Parmar''],
      DocumentIngestionResult.abstract = ''The paper presents a new simple network architecture, the Transformer, based solely on attention mechanisms.'',
      sections =
        [\<lparr>section_name = ''Introduction'',
           section_chunk.content = ''Neural networks for sequence transduction...'', chunk_id = 1\<rparr>,
         \<lparr>section_name = ''Model Architecture'',
           section_chunk.content = ''The Transformer model follows...'', chunk_id = 2\<rparr>,
         \<lparr>section_name = ''Results'',
           section_chunk.content = ''Experimental results show...'', chunk_id = 3\<rparr>],
      references = [],
      DocumentIngestionResult.validation_status = ''valid'',
      validation_errors = []\<rparr>"

definition simulateDocumentIngestion :: "pipeline_effect list" where
  "simulateDocumentIngestion =
     markStageComplete parsing @
     [P_SetCurrentStage PipelineStage.understanding,
      P_SetDocumentInfo mockDoc,
      P_SetTimeout SimulateUnderstanding 2000]"

definition mockUnderstanding :: UnderstandingResult_p where
  "mockUnderstanding =
     \<lparr>UnderstandingResult_p.problem_statement = ''Addressing inefficiencies in handling long-range dependencies in sequence transduction models.'',
      UnderstandingResult_p.methodology =
        \<lparr>approach = ''Novel architecture using only self-attention mechanisms without recurrence.'',
         techniques = [''self-attention'', ''positional encoding''],
         methodology.section_citation = ''Section 3: Model Architecture''\<rparr>,
      UnderstandingResult_p.results =
        \<lparr>key_findings =
           [''Significantly reduced training time through parallelization'',
            ''State-of-the-art performance on translation benchmarks''],
         results.section_citation = ''Section 5: Results''\<rparr>,
      UnderstandingResult_p.limitations =
        \<lparr>identified_limitations =
           [''Requires large amounts of data and computational resources'',
            ''Quadratic scaling with sequence length''],
         limitations.section_citation = ''Section 6: Discussion''\<rparr>,
      UnderstandingResult_p.key_claims =
        [\<lparr>claim = ''Self-attention models dependencies regardless of distance'',
           key_claim.section_citation = ''Section 3.2: Attention'',
           confidence = ''high''\<rparr>],
      paper_structure =
        \<lparr>sections_analyzed = [''Introduction'', ''Methodology'', ''Results'', ''Discussion''],
         has_clear_structure = True\<rparr>\<rparr>"

definition simulateUnderstanding :: "pipeline_effect list" where
  "simulateUnderstanding =
     markStageComplete PipelineStage.understanding @
     [P_SetCurrentStage summarizing,
      P_SetUnderstandingResult mockUnderstanding,
      P_SetTimeout SimulateSummarization 2000]"

definition mockSummary :: SummarizationResult where
  "mockSummary =
     \<lparr>SummarizationResult.summary = ''The attention mechanism has significantly advanced machine translation by allowing models to focus on pertinent parts of the input sequence intelligently. This architecture enhances performance by incorporating contextual information throughout the translation process.'',
      focus_areas_addressed = [''attention mechanism architecture'', ''practical applications''],
      tone = ''academic'',
      depth_level = ''detailed'',
      SummarizationResult.key_points =
        [\<lparr>point = ''Attention mechanism allows models to focus contextually on input sequences'',
           section_reference = ''Introduction and Methods''\<rparr>,
         \<lparr>point = ''Types include additive and multiplicative attention'',
           section_reference = ''Methods''\<rparr>,
         \<lparr>point = ''Transformers leverage attention for parallelization'',
           section_reference = ''Architecture''\<rparr>],
      uncertainties = [],
      word_count = 246\<rparr>"

definition simulateSummarization :: "pipeline_effect list" where
  "simulateSummarization =
     markStageComplete summarizing @
     [P_SetCurrentStage finding_papers,
      P_SetSummaryResult mockSummary,
      P_SetTimeout SimulateRecommendations 2000]"

definition mockRecs :: "Recommendation_p list" where
  "mockRecs =
     [\<lparr>Recommendation_p.rank = 1,
       Recommendation_p.title = ''BERT: Pre-training of Deep Bidirectional Transformers for Language Understanding'',
       Recommendation_p.authors = [''Jacob Devlin'', ''Ming-Wei Chang'', ''Kenton Lee''],
       Recommendation_p.year = 2019,
       Recommendation_p.source = ''arXiv'',
       Recommendation_p.doi_or_arxiv_id = ''arXiv:1810.04805'',
       Recommendation_p.relevance_score = 97 / 100,
       Recommendation_p.relevance_explanation = ''Extends the Transformer architecture with significant advancements in pre-training for NLP tasks.'',
       similarity_factors =
         \<lparr>semantic_similarity = 92 / 100, citation_overlap = 85 / 100,
          methodology_match = 9 / 10, recency_score = 7 / 10, impact_score = 95 / 100,
          interdisciplinary_relevance = 8 / 10\<rparr>,
       Recommendation_p.abstract_snippet = ''We introduce BERT, a method of pre-training language representations that obtains state-of-the-art results.''\<rparr>,
      \<lparr>Recommendation_p.rank = 2,
       Recommendation_p.title = ''XLNet: Generalized Autoregressive Pretraining for Language Understanding'',
       Recommendation_p.authors = [''Zhilin Yang'', ''Zihang Dai'', ''Yiming Yang''],
       Recommendation_p.year = 2019,
       Recommendation_p.source = ''arXiv'',
       Recommendation_p.doi_or_arxiv_id = ''arXiv:1906.08237'',
       Recommendation_p.relevance_score = 95 / 100,
       Recommendation_p.relevance_explanation = ''Builds upon Transformer with permutation-based training approach.'',
       similarity_factors =
         \<lparr>semantic_similarity = 9 / 10, citation_overlap = 8 / 10,
          methodology_match = 88 / 100, recency_score = 7 / 10, impact_score = 93 / 100,
          interdisciplinary_relevance = 75 / 100\<rparr>,
       Recommendation_p.abstract_snippet = ''XLNet improves upon BERT by maximizing expected likelihood over permutations.''\<rparr>,
      \<lparr>Recommendation_p.rank = 3,
       Recommendation_p.title = ''Transformers in Vision: A Survey'',
       Recommendation_p.authors = [''Huggingface Community Members''],
       Recommendation_p.year = 2021,
       Recommendation_p.source = ''Semantic Scholar'',
       Recommendation_p.doi_or_arxiv_id = ''arXiv:2101.01169'',
       Recommendation_p.relevance_score = 93 / 100,
       Recommendation_p.relevance_explanation = ''Showcases adaptation of Transformer architectures in computer vision.'',
       similarity_factors =
         \<lparr>semantic_similarity = 91 / 100, citation_overlap = 82 / 100,
          methodology_match = 87 / 100, recency_score = 85 / 100, impact_score = 86 / 100,
          interdisciplinary_relevance = 9 / 10\<rparr>,
       Recommendation_p.abstract_snippet = ''Overview of research and development in visual transformers.''\<rparr>,
      \<lparr>Recommendation_p.rank = 4,
       Recommendation_p.title = ''The Transformer Model for Language Understanding: A Review'',
       Recommendation_p.authors = [''Albert Model''],
       Recommendation_p.year = 2020,
       Recommendation_p.source = ''CrossRef'',
       Recommendation_p.doi_or_arxiv_id = ''doi:10.1016/j.artint.2020.103222'',
       Recommendation_p.relevance_score = 92 / 100,
       Recommendation_p.relevance_explanation = ''Comprehensive review of Transformer models in language processing.'',
       similarity_factors =
         \<lparr>semantic_similarity = 88 / 100, citation_overlap = 81 / 100,
          methodology_match = 85 / 100, recency_score = 75 / 100, impact_score = 9 / 10,
          interdisciplinary_relevance = 7 / 10\<rparr>,
       Recommendation_p.abstract_snippet = ''Reviews the evolution and impact of Transformer models.''\<rparr>,
      \<lparr>Recommendation_p.rank = 5,
       Recommendation_p.title = ''Language Models are Few-Shot Learners'',
       Recommendation_p.authors = [''Tom B. Brown'', ''Benjamin Mann'', ''Nick Ryder''],
       Recommendation_p.year = 2020,
       Recommendation_p.source = ''arXiv'',
       Recommendation_p.doi_or_arxiv_id = ''arXiv:2005.14165'',
       Recommendation_p.relevance_score = 91 / 100,
       Recommendation_p.relevance_explanation = ''Demonstrates Transformer model capacity for few-shot learning.'',
       similarity_factors =
         \<lparr>semantic_similarity = 87 / 100, citation_overlap = 79 / 100,
          methodology_match = 83 / 100, recency_score = 78 / 100, impact_score = 92 / 100,
          interdisciplinary_relevance = 85 / 100\<rparr>,
       Recommendation_p.abstract_snippet = ''Language models achieve impressive performance with few-shot learning capabilities.''\<rparr>]"

definition simulateRecommendations :: "pipeline_effect list" where
  "simulateRecommendations =
     markStageComplete finding_papers @
     [P_SetCurrentStage quality_check,
      P_SetRecommendations mockRecs,
      P_SetTimeout SimulateQualityControl 1500]"

definition mockQuality :: QualityControlResult where
  "mockQuality =
     \<lparr>QualityControlResult.validation_status = ''passed_with_warnings'',
      summary_validation =
        \<lparr>coherence_score = 95 / 100, factual_grounding_verified = True,
         hallucination_flags = [], redundancy_removed = [],
         summary_validation.issues_found = []\<rparr>,
      recommendations_validation =
        \<lparr>relevance_verified = True, all_recommendations_appropriate = True,
         recommendations_validation.issues_found = [], recommendations_to_remove = []\<rparr>,
      uncertainty_flags = [],
      QualityControlResult.quality_score = 92 / 100,
      approved_for_delivery = True,
      corrections_applied = []\<rparr>"

definition simulateQualityControl :: "pipeline_effect list" where
  "simulateQualityControl =
     markStageComplete quality_check @
     [P_SetCurrentStage PipelineStage.complete,
      P_SetQualityResult mockQuality]"

text \<open>The callback a timer runs when it fires.\<close>

fun fire :: "timer \<Rightarrow> pipeline_effect list" where
  "fire SimulateDocumentIngestion = simulateDocumentIngestion"
| "fire SimulateUnderstanding = simulateUnderstanding"
| "fire SimulateSummarization = simulateSummarization"
| "fire SimulateRecommendations = simulateRecommendations"
| "fire SimulateQualityControl = simulateQualityControl"


text \<open>The pipeline state after a list of timers has fired, in order.\<close>

fun fire_timers :: "timer list \<Rightarrow> pipeline \<Rightarrow> pipeline" where
  "fire_timers [] p = p"
| "fire_timers (t # ts) p = fire_timers ts (run_pipeline p (fire t))"

section \<open>Concrete sessions\<close>

text \<open>The values, collaborators and sessions at which the theorems below are
  evaluated.\<close>

definition paper_pdf :: File where
  "paper_pdf = \<lparr>name = ''paper.pdf'', type = ''application/pdf''\<rparr>"

definition ok_reply :: "'r \<Rightarrow> 'r AIAgentResponse" where
  "ok_reply p = \<lparr>AIAgentResponse.success = True, response = \<lparr>status = ''success'', result = p\<rparr>\<rparr>"

definition error_reply :: "'r \<Rightarrow> 'r AIAgentResponse" where
  "error_reply p = \<lparr>AIAgentResponse.success = True, response = \<lparr>status = ''error'', result = p\<rparr>\<rparr>"

definition question_payload :: CoordinatorPayload where
  "question_payload =
     \<lparr>user_message = Some ''What would you like to focus on?'', next_action = None,
      aggregated_results = None\<rparr>"

text \<open>An upload that succeeds with the asset \<^verbatim>\<open>a1\<close>, and a coordinator that asks back.\<close>

definition upload_ok_env :: env where
  "upload_ok_env =
     \<lparr>uploadFiles =
        (\<lambda>f. Resolves \<lparr>UploadResult.success = True, asset_ids = [''a1''], error = None\<rparr>),
      callAIAgent = (\<lambda>m a assets. Resolves (ok_reply question_payload)),
      clock = (\<lambda>k. k)\<rparr>"

text \<open>An upload that reports \<^verbatim>\<open>{success: false, error: "disk full"}\<close>.\<close>

definition disk_full_env :: env where
  "disk_full_env =
     \<lparr>uploadFiles =
        (\<lambda>f. Resolves \<lparr>UploadResult.success = False, asset_ids = [], error = Some ''disk full''\<rparr>),
      callAIAgent = (\<lambda>m a assets. Resolves (ok_reply question_payload)),
      clock = (\<lambda>k. k)\<rparr>"

text \<open>A coordinator whose call throws, an upload that throws, and a coordinator that
  replies with a status other than success.\<close>

definition rejecting_env :: env where
  "rejecting_env = upload_ok_env\<lparr>callAIAgent := (\<lambda>m a assets. Rejects)\<rparr>"

definition upload_rejecting_env :: env where
  "upload_rejecting_env = upload_ok_env\<lparr>uploadFiles := (\<lambda>f. Rejects)\<rparr>"

definition error_env :: env where
  "error_env = upload_ok_env\<lparr>callAIAgent := (\<lambda>m a assets. Resolves (error_reply question_payload))\<rparr>"

definition attention_info :: DocumentInfo where
  "attention_info =
     \<lparr>DocumentInfo.title = ''Attention Is All You Need'',
      DocumentInfo.authors = [''Ashish Vaswani'', ''Noam Shazeer''],
      DocumentInfo.abstract = ''A new simple network architecture, the Transformer.'',
      DocumentInfo.year = Some 2017\<rparr>"

definition bert :: Recommendation where
  "bert =
     \<lparr>Recommendation.rank = 1, Recommendation.title = ''BERT'',
      Recommendation.authors = [''Jacob Devlin''], Recommendation.year = 2019,
      Recommendation.source = ''arXiv'', Recommendation.doi_or_arxiv_id = ''arXiv:1810.04805'',
      Recommendation.relevance_score = 97 / 100,
      Recommendation.relevance_explanation = ''Extends the Transformer.'',
      Recommendation.abstract_snippet = ''We introduce BERT.''\<rparr>"

definition attention_point :: KeyPoint where
  "attention_point = \<lparr>point = ''Attention replaces recurrence'', section_reference = ''Methods''\<rparr>"

text \<open>A reply that carries aggregated results: document info, key points, one
  recommendation and a quality score, but no paper analysis.\<close>

definition results_payload :: CoordinatorPayload where
  "results_payload =
     \<lparr>user_message = Some ''Here is the analysis.'', next_action = None,
      aggregated_results = Some
        \<lparr>AggregatedResults.document_info = Some attention_info,
         AggregatedResults.paper_analysis = None,
         AggregatedResults.summary = Some \<lparr>summary_payload.key_points = Some [attention_point]\<rparr>,
         AggregatedResults.recommendations = Some [bert],
         AggregatedResults.quality_validation =
           Some \<lparr>quality_validation_payload.quality_score = Some (92 / 100)\<rparr>\<rparr>\<rparr>"

definition results_env :: env where
  "results_env = upload_ok_env\<lparr>callAIAgent := (\<lambda>m a assets. Resolves (ok_reply results_payload))\<rparr>"

text \<open>A reply whose aggregated results hold a summary without key points and a quality
  validation without a score, and nothing else.\<close>

definition bare_summary :: summary_payload where
  "bare_summary = \<lparr>summary_payload.key_points = None\<rparr>"

definition bare_validation :: quality_validation_payload where
  "bare_validation = \<lparr>quality_validation_payload.quality_score = None\<rparr>"

definition bare_results :: AggregatedResults where
  "bare_results =
     \<lparr>AggregatedResults.document_info = None,
      AggregatedResults.paper_analysis = None,
      AggregatedResults.summary = Some bare_summary,
      AggregatedResults.recommendations = None,
      AggregatedResults.quality_validation = Some bare_validation\<rparr>"

definition bare_payload :: CoordinatorPayload where
  "bare_payload =
     \<lparr>user_message = Some ''Updated.'', next_action = None,
      aggregated_results = Some bare_results\<rparr>"

definition bare_env :: env where
  "bare_env = upload_ok_env\<lparr>callAIAgent := (\<lambda>m a assets. Resolves (ok_reply bare_payload))\<rparr>"

text \<open>The user picks \<^verbatim>\<open>paper.pdf\<close>; the analysis starts; the user types a request; the
  coordinator delivers the results; the user types a second request.\<close>

definition file_session :: session where
  "file_session = steps [HandleFileChange [paper_pdf]] initial"

definition asking_session :: session where
  "asking_session =
     steps [AnalyzeDocument upload_ok_env, ChangeUserInput ''Focus on methodology''] file_session"

definition complete_session :: session where
  "complete_session =
     steps [SendMessage results_env, ChangeUserInput ''Shorter please''] asking_session"

text \<open>The user types a single space into the DOI field of a fresh page.\<close>

definition blank_doi_session :: session where
  "blank_doi_session = steps [ChangeDoiInput '' ''] initial"

text \<open>The first upload fails, which leaves the failure notice in the log and the page at
  the intake form.\<close>

definition failed_upload_session :: session where
  "failed_upload_session = steps [AnalyzeDocument disk_full_env] file_session"

text \<open>A second upload, which succeeds with the asset \<^verbatim>\<open>a2\<close>.\<close>

definition second_upload_env :: env where
  "second_upload_env =
     upload_ok_env
       \<lparr>uploadFiles :=
          (\<lambda>f. Resolves \<lparr>UploadResult.success = True, asset_ids = [''a2''], error = None\<rparr>)\<rparr>"

text \<open>The user types a DOI into a fresh page.\<close>

definition doi_session :: session where
  "doi_session = steps [ChangeDoiInput ''10.1000/182''] initial"

text \<open>A rendering of the two numbers the export of the concrete sessions prints, the
  index 1 and the year 2019.\<close>

definition plain_rendering :: "rat \<Rightarrow> string" where
  "plain_rendering q = (if q = 1 then ''1'' else if q = 2019 then ''2019'' else [])"

text \<open>A document whose title runs over two lines.\<close>

definition two_line_session :: session where
  "two_line_session =
     initial\<lparr>stage := complete,
       documentInfo := Some (attention_info\<lparr>DocumentInfo.title := ''Attention Is\<newline>All You Need''\<rparr>)\<rparr>"

text \<open>The pipeline page with a DOI typed in, a coordinator that answers with a status
  other than success, one that triggers the ingestion, and the page after the form was
  submitted, a request sent and all five timers of the script have fired.\<close>

definition empty_result :: DiscoveryCoordinatorResult where
  "empty_result =
     \<lparr>workflow_stage = [],
      conversation_state =
        \<lparr>user_input_received = False, summarization_prompt_provided = False,
         ready_to_proceed = False\<rparr>,
      DiscoveryCoordinatorResult.aggregated_results =
        \<lparr>aggregated_results_any.document_info = JNull,
         aggregated_results_any.paper_analysis = JNull,
         aggregated_results_any.summary = JNull,
         aggregated_results_any.recommendations = [],
         aggregated_results_any.quality_validation = JNull\<rparr>,
      DiscoveryCoordinatorResult.next_action = [],
      DiscoveryCoordinatorResult.user_message = [],
      errors = [''agent unavailable'']\<rparr>"

definition doi_pipeline :: pipeline where
  "doi_pipeline = initial_pipeline\<lparr>pipeline.doiInput := ''10.1000/182''\<rparr>"

definition soft_failure_agent :: agent where
  "soft_failure_agent = (\<lambda>m a. Resolves (error_reply empty_result))"

definition trigger_agent :: agent where
  "trigger_agent =
     (\<lambda>m a. Resolves
        (ok_reply
           (empty_result\<lparr>DiscoveryCoordinatorResult.next_action := ''trigger_ingestion'',
              DiscoveryCoordinatorResult.user_message := ''Starting the pipeline.'',
              errors := []\<rparr>)))"

definition scripted_pipeline :: pipeline where
  "scripted_pipeline =
     (let submitted = run_pipeline doi_pipeline (analyzeForm trigger_agent doi_pipeline);
          typed = submitted\<lparr>pipeline.userInput := ''Focus on methodology and limitations''\<rparr>;
          sent = run_pipeline typed (sendMessage_p trigger_agent typed)
      in fire_timers
           [SimulateDocumentIngestion, SimulateUnderstanding, SimulateSummarization,
            SimulateRecommendations, SimulateQualityControl]
           sent)"

section \<open>Auxiliary facts\<close>

lemma agent_calls_append: "agent_calls (xs @ ys) = agent_calls xs @ agent_calls ys"
  by (induction xs rule: agent_calls.induct) simp_all

lemma first_line_heading:
  "CHR 0x0A \<notin> set t \<Longrightarrow> first_line (t @ CHR 0x0A # rest) = t"
  by (induction t) (auto simp add: first_line_def)

lemma trim_focus: "trim ''Focus on methodology'' = ''Focus on methodology''"
  by (simp add: trim_def is_white_space_def)

lemma trim_shorter: "trim ''Shorter please'' = ''Shorter please''"
  by (simp add: trim_def is_white_space_def)

text \<open>The concrete sessions, evaluated.\<close>

lemma file_session_eq: "file_session = initial\<lparr>pdfFile := Some paper_pdf\<rparr>"
  by (simp add: file_session_def step_def run_def handleFileChange_def)

lemma asking_session_eq:
  "asking_session = initial
     \<lparr>pdfFile := Some paper_pdf, uploadedAssetIds := [''a1''],
      chatMessages :=
        [\<lparr>role = user,
          content = ''I've uploaded a research paper (PDF: paper.pdf). Please help me analyze it.'',
          timestamp = Some 0\<rparr>,
         \<lparr>role = assistant, content = ''What would you like to focus on?'',
          timestamp = Some 1\<rparr>],
      userInput := ''Focus on methodology'', stage := conversation\<rparr>"
  by (simp add: asking_session_def file_session_eq step_def run_def analyzeDocument_def
      analyzeDocument_conversation_def initialMessage_def upload_ok_env_def ok_reply_def
      question_payload_def or_else_def paper_pdf_def initial_def)

lemma complete_session_eq:
  "complete_session = initial
     \<lparr>pdfFile := Some paper_pdf, uploadedAssetIds := [''a1''],
      chatMessages :=
        [\<lparr>role = user,
          content = ''I've uploaded a research paper (PDF: paper.pdf). Please help me analyze it.'',
          timestamp = Some 0\<rparr>,
         \<lparr>role = assistant, content = ''What would you like to focus on?'',
          timestamp = Some 1\<rparr>,
         \<lparr>role = user, content = ''Focus on methodology'', timestamp = Some 0\<rparr>,
         \<lparr>role = assistant, content = ''Here is the analysis.'', timestamp = Some 1\<rparr>],
      userInput := ''Shorter please'', stage := complete,
      documentInfo := Some attention_info, keyTakeaways := [attention_point],
      recommendations := [bert], qualityScore := Some (92 / 100)\<rparr>"
  by (simp add: complete_session_def asking_session_eq step_def run_def sendMessage_def
      aggregate_def results_env_def upload_ok_env_def results_payload_def ok_reply_def
      or_else_def trim_focus initial_def Let_def)

lemma scripted_pipeline_results:
  "pipeline.documentInfo scripted_pipeline = Some mockDoc
   \<and> summaryResult scripted_pipeline = Some mockSummary
   \<and> currentStage scripted_pipeline = PipelineStage.complete"
  by (simp add: scripted_pipeline_def doi_pipeline_def initial_pipeline_def run_pipeline_def
      analyzeForm_def sendMessage_p_def trigger_agent_def ok_reply_def empty_result_def
      trim_def is_white_space_def simulateDocumentIngestion_def simulateUnderstanding_def
      simulateSummarization_def simulateRecommendations_def simulateQualityControl_def
      markStageComplete_def Let_def)

text \<open>What \<^verbatim>\<open>sendMessage\<close> writes to the stage and to the log, and what the handlers
  without an exchange leave alone.\<close>

lemma stage_writes_sendMessage:
  "stage_writes (sendMessage env s) = [] \<or> stage_writes (sendMessage env s) = [analyzing, complete]"
  by (simp add: sendMessage_def aggregate_def Let_def split: outcome.splits option.splits)

lemma stage_after_sendMessage:
  "stage (step (SendMessage env) s) = stage s \<or> stage (step (SendMessage env) s) = complete"
  by (simp add: step_def sendMessage_def run_def aggregate_def Let_def
      split: outcome.splits option.splits)

lemma stage_rank_le_complete: "stage_rank st \<le> stage_rank complete"
  by (cases st) simp_all

lemma no_exchange_effects:
  "no_exchange ev \<Longrightarrow> stage_writes (handler ev s) = [] \<and> agent_calls (handler ev s) = []
     \<and> stage (step ev s) = stage s \<and> chatMessages (step ev s) = chatMessages s
     \<and> uploadedAssetIds (step ev s) = uploadedAssetIds s"
  by (cases ev) (simp_all add: step_def run_def handleDrag_def handleDrop_def
      handleFileChange_def toggleSection_def exportSummary_def Let_def
      split: list.splits option.splits)

lemma sendMessage_appends:
  "\<exists>ts. chatMessages (step (SendMessage env) s) = chatMessages s @ ts
      \<and> (if trim (userInput s) = [] \<or> isLoading s then ts = []
          else map role ts = [user, assistant] \<and> content (hd ts) = trim (userInput s))"
  by (simp add: step_def sendMessage_def run_def aggregate_def Let_def
      split: outcome.splits option.splits)

lemma within_analysis_prefix:
  assumes "within_analysis ev"
  shows "prefix (chatMessages s) (chatMessages (step ev s))"
proof (cases "no_exchange ev")
  case True
  then show ?thesis using no_exchange_effects [of ev s] by simp
next
  case False
  with assms obtain env where "ev = SendMessage env"
    by (cases ev) simp_all
  then show ?thesis using sendMessage_appends [of env s] by (auto simp: prefix_def)
qed

lemma within_analysis_steps_prefix:
  "\<forall>ev \<in> set evs. within_analysis ev \<Longrightarrow> prefix (chatMessages s) (chatMessages (steps evs s))"
proof (induction evs arbitrary: s)
  case Nil
  then show ?case by simp
next
  case (Cons ev evs)
  have "prefix (chatMessages s) (chatMessages (step ev s))"
    using Cons.prems by (simp add: within_analysis_prefix)
  moreover have "prefix (chatMessages (step ev s)) (chatMessages (steps evs (step ev s)))"
    using Cons.IH Cons.prems by simp
  ultimately show ?case by (auto intro: prefix_order.trans)
qed

text \<open>\<^verbatim>\<open>analyzeDocument\<close> does not read the log, and overwrites it.\<close>

lemma initialMessage_log: "initialMessage (s\<lparr>chatMessages := xs\<rparr>) = initialMessage s"
  by (simp add: initialMessage_def)

lemma analyzeDocument_conversation_log:
  "analyzeDocument_conversation env (s\<lparr>chatMessages := xs\<rparr>) ids =
   analyzeDocument_conversation env s ids"
  by (simp add: analyzeDocument_conversation_def initialMessage_log)

lemma analyzeDocument_log:
  "analyzeDocument env (s\<lparr>chatMessages := xs\<rparr>) = analyzeDocument env s"
  by (simp add: analyzeDocument_def analyzeDocument_conversation_log
      cong: option.case_cong outcome.case_cong if_cong)

lemma analyzeDocument_fresh_log:
  assumes "\<not> (pdfFile s = None \<and> doiInput s = [] \<and> arxivInput s = [])"
  shows "chatMessages (step (AnalyzeDocument env) s) =
     chatMessages (step (AnalyzeDocument env) (s\<lparr>chatMessages := []\<rparr>))
   \<and> length (chatMessages (step (AnalyzeDocument env) s)) \<in> {1, 2}"
proof -
  have g: "(pdfFile s = None \<and> doiInput s = [] \<and> arxivInput s = []) = False"
    using assms by simp
  show ?thesis
    by (simp add: step_def run_def analyzeDocument_log)
      (simp add: analyzeDocument_def g analyzeDocument_conversation_def
        analyzeDocument_catch_def split: outcome.splits option.splits)
qed

text \<open>The stored asset references during the turns of one analysis.\<close>

lemma sendMessage_assets:
  "uploadedAssetIds (step (SendMessage env) s) = uploadedAssetIds s
   \<and> (\<forall>c \<in> set (agent_calls (sendMessage env s)). snd (snd c) = uploadedAssetIds s)"
  by (simp add: step_def sendMessage_def run_def aggregate_def Let_def
      split: outcome.splits option.splits)

lemma within_analysis_assets:
  assumes "within_analysis ev"
  shows "uploadedAssetIds (step ev s) = uploadedAssetIds s
   \<and> (\<forall>c \<in> set (agent_calls (handler ev s)). snd (snd c) = uploadedAssetIds s)"
proof (cases "no_exchange ev")
  case True
  then show ?thesis using no_exchange_effects [of ev s] by simp
next
  case False
  with assms obtain env where "ev = SendMessage env"
    by (cases ev) simp_all
  then show ?thesis using sendMessage_assets [of env s] by simp
qed

lemma trace_assets:
  "\<forall>ev \<in> set evs. within_analysis ev \<Longrightarrow>
   uploadedAssetIds (steps evs s) = uploadedAssetIds s
   \<and> (\<forall>c \<in> set (agent_calls (trace evs s)). snd (snd c) = uploadedAssetIds s)"
proof (induction evs arbitrary: s)
  case Nil
  then show ?case by simp
next
  case (Cons ev evs)
  have ev: "within_analysis ev" and evs: "\<forall>e \<in> set evs. within_analysis e"
    using Cons.prems by simp_all
  note h = within_analysis_assets [OF ev, of s]
  note ih = Cons.IH [OF evs, of "step ev s"]
  from h ih show ?case by (auto simp: agent_calls_append)
qed

lemma analyzeDocument_stores_assets:
  assumes "pdfFile s = Some f" and "uploadFiles env f = Resolves u" and "UploadResult.success u"
  shows "uploadedAssetIds (step (AnalyzeDocument env) s) = asset_ids u
    \<and> agent_calls (analyzeDocument env s) = [(initialMessage s, DISCOVERY_COORDINATOR, asset_ids u)]"
  using assms
  by (simp add: step_def run_def analyzeDocument_def analyzeDocument_conversation_def
      analyzeDocument_catch_def split: outcome.splits)

text \<open>The loading flag at the end of the handlers that call the coordinator. Three of
  the four clear it on every path.\<close>

lemma sendMessage_clears_loading:
  "trim (userInput s) \<noteq> [] \<Longrightarrow> \<not> isLoading s \<Longrightarrow>
   \<not> isLoading (step (SendMessage env) s) \<and> last (sendMessage env s) = SetIsLoading False"
  by (simp add: step_def sendMessage_def run_def aggregate_def Let_def
      split: outcome.splits option.splits)

lemma sendMessage_p_clears_loading:
  "trim (pipeline.userInput p) \<noteq> [] \<Longrightarrow> \<not> pipeline.isLoading p \<Longrightarrow>
   \<not> pipeline.isLoading (run_pipeline p (sendMessage_p agent p))
   \<and> last (sendMessage_p agent p) = P_SetIsLoading False"
  by (simp add: sendMessage_p_def run_pipeline_def Let_def split: outcome.splits)

lemma analyzeDocument_clears_loading:
  "\<not> (pdfFile s = None \<and> doiInput s = [] \<and> arxivInput s = []) \<Longrightarrow>
   \<not> isLoading (step (AnalyzeDocument env) s)"
  by (auto simp add: step_def run_def analyzeDocument_def analyzeDocument_conversation_def
      analyzeDocument_catch_def split: outcome.splits option.splits)

lemma analyzeForm_soft_failure:
  assumes "\<not> (pipeline.pdfFile p = None \<and> pipeline.doiInput p = [] \<and> pipeline.arxivInput p = [])"
    and "agent (initialMessage_p p) DISCOVERY_COORDINATOR = Resolves r"
    and "\<not> (AIAgentResponse.success r \<and> status (response r) = ''success'')"
  shows "pipeline.isLoading (run_pipeline p (analyzeForm agent p))"
proof -
  have g: "(pipeline.pdfFile p = None \<and> pipeline.doiInput p = [] \<and> pipeline.arxivInput p = [])
      = False"
    using assms(1) by simp
  show ?thesis
    using assms(2,3) by (auto simp add: analyzeForm_def g run_pipeline_def)
qed

text \<open>On the pipeline page a reply that asks for the ingestion sets the stage pointer to
  \<^verbatim>\<open>parsing\<close> from whatever stage it was at; the completed stages only grow.\<close>

lemma sendMessage_p_restarts_pipeline:
  assumes "trim (pipeline.userInput p) \<noteq> []" and "\<not> pipeline.isLoading p"
    and "agent (pipeline.userInput p) DISCOVERY_COORDINATOR = Resolves r"
    and "AIAgentResponse.success r" and "status (response r) = ''success''"
    and "DiscoveryCoordinatorResult.next_action (result (response r)) = ''trigger_ingestion''"
  shows "currentStage (run_pipeline p (sendMessage_p agent p)) = parsing"
  using assms by (simp add: sendMessage_p_def run_pipeline_def Let_def)


lemma markStageComplete_grows:
  "stagesCompleted (run_pipeline p (markStageComplete st)) = insert st (stagesCompleted p)"
  by (simp add: run_pipeline_def markStageComplete_def)

lemma two_line_title_export:
  "map (first_line \<circ> snd) (downloads (exportSummary number_to_string two_line_session))
     = [''# Attention Is'']
   \<and> \<not> string_includes ''# Attention Is'' ''Attention Is\<newline>All You Need''"
  by (simp add: two_line_session_def exportSummary_def export_content_def first_line_def
      attention_info_def initial_def)

section \<open>The stage pointer\<close>

text \<open>
  C1 (amended). On the five-stage page the stage is written by \<^verbatim>\<open>analyzeDocument\<close>,
  \<^verbatim>\<open>sendMessage\<close> and the reset only. \<^verbatim>\<open>sendMessage\<close> never ends at an earlier stage
  than it started at: it writes \<^verbatim>\<open>analyzing\<close> and then \<^verbatim>\<open>complete\<close>, or it does not write
  the stage at all, and on its failure paths (the call throws, or the reply has no success
  status) it does not write it. \<^verbatim>\<open>analyzeDocument\<close> writes \<^verbatim>\<open>uploading\<close> and then
  \<^verbatim>\<open>conversation\<close>; on its failure paths (the upload reports failure, the upload throws,
  the coordinator call throws, with or without a file) it then writes \<^verbatim>\<open>idle\<close>, which is
  how the page lets the user retry.
\<close>

theorem stage_progression:
  "stage_rank (stage s) \<le> stage_rank (stage (step (SendMessage env) s))
   \<and> (stage_writes (sendMessage env s) = [] \<or> stage_writes (sendMessage env s) = [analyzing, complete])
   \<and> (callAIAgent env (trim (userInput s)) DISCOVERY_COORDINATOR (uploadedAssetIds s) = Rejects
        \<longrightarrow> stage_writes (sendMessage env s) = [])
   \<and> (callAIAgent env (trim (userInput s)) DISCOVERY_COORDINATOR (uploadedAssetIds s) = Resolves r
        \<and> \<not> (AIAgentResponse.success r \<and> status (response r) = ''success'')
        \<longrightarrow> stage_writes (sendMessage env s) = [])
   \<and> (no_exchange ev \<longrightarrow> stage_writes (handler ev s) = [])
   \<and> stage_writes (analyzeDocument env s) \<in>
        {[], [uploading, idle], [uploading, conversation], [uploading, conversation, idle]}
   \<and> (pdfFile s = Some f \<and> uploadFiles env f = Rejects
        \<longrightarrow> stage_writes (analyzeDocument env s) = [uploading, idle])
   \<and> (pdfFile s = Some f \<and> uploadFiles env f = Resolves u \<and> \<not> UploadResult.success u
        \<longrightarrow> stage_writes (analyzeDocument env s) = [uploading, idle])
   \<and> (pdfFile s = Some f \<and> uploadFiles env f = Resolves u \<and> UploadResult.success u
        \<and> callAIAgent env (initialMessage s) DISCOVERY_COORDINATOR (asset_ids u) = Rejects
        \<longrightarrow> stage_writes (analyzeDocument env s) = [uploading, conversation, idle])
   \<and> (pdfFile s = Some f \<and> uploadFiles env f = Resolves u \<and> UploadResult.success u
        \<and> callAIAgent env (initialMessage s) DISCOVERY_COORDINATOR (asset_ids u) = Resolves r
        \<longrightarrow> stage_writes (analyzeDocument env s) = [uploading, conversation])
   \<and> (pdfFile s = None \<and> (doiInput s \<noteq> [] \<or> arxivInput s \<noteq> [])
        \<and> callAIAgent env (initialMessage s) DISCOVERY_COORDINATOR [] = Rejects
        \<longrightarrow> stage_writes (analyzeDocument env s) = [uploading, conversation, idle])
   \<and> (pdfFile s = None \<and> (doiInput s \<noteq> [] \<or> arxivInput s \<noteq> [])
        \<and> callAIAgent env (initialMessage s) DISCOVERY_COORDINATOR [] = Resolves r
        \<longrightarrow> stage_writes (analyzeDocument env s) = [uploading, conversation])"
proof -
  have a: "stage_rank (stage s) \<le> stage_rank (stage (step (SendMessage env) s))"
    using stage_after_sendMessage [of env s] stage_rank_le_complete [of "stage s"] by auto
  have b: "callAIAgent env (trim (userInput s)) DISCOVERY_COORDINATOR (uploadedAssetIds s) = Rejects
      \<longrightarrow> stage_writes (sendMessage env s) = []"
    by (simp add: sendMessage_def Let_def)
  have c: "callAIAgent env (trim (userInput s)) DISCOVERY_COORDINATOR (uploadedAssetIds s) = Resolves r
      \<and> \<not> (AIAgentResponse.success r \<and> status (response r) = ''success'')
      \<longrightarrow> stage_writes (sendMessage env s) = []"
    by (auto simp add: sendMessage_def Let_def)
  have d: "no_exchange ev \<longrightarrow> stage_writes (handler ev s) = []"
    using no_exchange_effects [of ev s] by blast
  have e: "stage_writes (analyzeDocument env s) \<in>
      {[], [uploading, idle], [uploading, conversation], [uploading, conversation, idle]}"
    by (simp add: analyzeDocument_def analyzeDocument_conversation_def analyzeDocument_catch_def
        split: outcome.splits option.splits)
  have f: "pdfFile s = Some f \<and> uploadFiles env f = Rejects
      \<longrightarrow> stage_writes (analyzeDocument env s) = [uploading, idle]"
    by (simp add: analyzeDocument_def analyzeDocument_catch_def)
  have g: "pdfFile s = Some f \<and> uploadFiles env f = Resolves u \<and> \<not> UploadResult.success u
      \<longrightarrow> stage_writes (analyzeDocument env s) = [uploading, idle]"
    by (simp add: analyzeDocument_def)
  have h: "pdfFile s = Some f \<and> uploadFiles env f = Resolves u \<and> UploadResult.success u
      \<and> callAIAgent env (initialMessage s) DISCOVERY_COORDINATOR (asset_ids u) = Rejects
      \<longrightarrow> stage_writes (analyzeDocument env s) = [uploading, conversation, idle]"
    by (simp add: analyzeDocument_def analyzeDocument_conversation_def analyzeDocument_catch_def)
  have i: "pdfFile s = Some f \<and> uploadFiles env f = Resolves u \<and> UploadResult.success u
      \<and> callAIAgent env (initialMessage s) DISCOVERY_COORDINATOR (asset_ids u) = Resolves r
      \<longrightarrow> stage_writes (analyzeDocument env s) = [uploading, conversation]"
    by (simp add: analyzeDocument_def analyzeDocument_conversation_def)
  have j: "pdfFile s = None \<and> (doiInput s \<noteq> [] \<or> arxivInput s \<noteq> [])
      \<and> callAIAgent env (initialMessage s) DISCOVERY_COORDINATOR [] = Rejects
      \<longrightarrow> stage_writes (analyzeDocument env s) = [uploading, conversation, idle]"
    by (auto simp add: analyzeDocument_def analyzeDocument_conversation_def
        analyzeDocument_catch_def)
  have k: "pdfFile s = None \<and> (doiInput s \<noteq> [] \<or> arxivInput s \<noteq> [])
      \<and> callAIAgent env (initialMessage s) DISCOVERY_COORDINATOR [] = Resolves r
      \<longrightarrow> stage_writes (analyzeDocument env s) = [uploading, conversation]"
    by (auto simp add: analyzeDocument_def analyzeDocument_conversation_def)
  from a stage_writes_sendMessage [of env s] b c d e f g h i have
    l: "stage_rank (stage s) \<le> stage_rank (stage (step (SendMessage env) s))
      \<and> (stage_writes (sendMessage env s) = []
          \<or> stage_writes (sendMessage env s) = [analyzing, complete])
      \<and> (callAIAgent env (trim (userInput s)) DISCOVERY_COORDINATOR (uploadedAssetIds s) = Rejects
          \<longrightarrow> stage_writes (sendMessage env s) = [])
      \<and> (callAIAgent env (trim (userInput s)) DISCOVERY_COORDINATOR (uploadedAssetIds s)
            = Resolves r
          \<and> \<not> (AIAgentResponse.success r \<and> status (response r) = ''success'')
          \<longrightarrow> stage_writes (sendMessage env s) = [])
      \<and> (no_exchange ev \<longrightarrow> stage_writes (handler ev s) = [])
      \<and> stage_writes (analyzeDocument env s) \<in>
          {[], [uploading, idle], [uploading, conversation], [uploading, conversation, idle]}
      \<and> (pdfFile s = Some f \<and> uploadFiles env f = Rejects
          \<longrightarrow> stage_writes (analyzeDocument env s) = [uploading, idle])
      \<and> (pdfFile s = Some f \<and> uploadFiles env f = Resolves u \<and> \<not> UploadResult.success u
          \<longrightarrow> stage_writes (analyzeDocument env s) = [uploading, idle])
      \<and> (pdfFile s = Some f \<and> uploadFiles env f = Resolves u \<and> UploadResult.success u
          \<and> callAIAgent env (initialMessage s) DISCOVERY_COORDINATOR (asset_ids u) = Rejects
          \<longrightarrow> stage_writes (analyzeDocument env s) = [uploading, conversation, idle])
      \<and> (pdfFile s = Some f \<and> uploadFiles env f = Resolves u \<and> UploadResult.success u
          \<and> callAIAgent env (initialMessage s) DISCOVERY_COORDINATOR (asset_ids u) = Resolves r
          \<longrightarrow> stage_writes (analyzeDocument env s) = [uploading, conversation])"
    by blast
  from l j k show ?thesis by blast
qed

theorem stage_progression_witness:
  "stage_writes (sendMessage rejecting_env asking_session) = []
   \<and> stage_writes (sendMessage error_env asking_session) = []
   \<and> stage_writes (handler (ToggleSection ''results'') asking_session) = []
   \<and> stage_writes (analyzeDocument upload_rejecting_env file_session) = [uploading, idle]
   \<and> stage_writes (analyzeDocument disk_full_env file_session) = [uploading, idle]
   \<and> stage_writes (analyzeDocument rejecting_env file_session) = [uploading, conversation, idle]
   \<and> stage_writes (analyzeDocument upload_ok_env file_session) = [uploading, conversation]
   \<and> stage_rank (stage asking_session)
        \<le> stage_rank (stage (step (SendMessage results_env) asking_session))
   \<and> stage_writes (analyzeDocument rejecting_env doi_session) = [uploading, conversation, idle]
   \<and> stage_writes (analyzeDocument upload_ok_env doi_session) = [uploading, conversation]"
proof -
  let ?ok = "\<lparr>UploadResult.success = True, asset_ids = [''a1''], error = None\<rparr>"
  let ?full = "\<lparr>UploadResult.success = False, asset_ids = [], error = Some ''disk full''\<rparr>"
  have f: "pdfFile file_session = Some paper_pdf"
    by (simp add: file_session_eq)
  have a: "callAIAgent rejecting_env (trim (userInput asking_session)) DISCOVERY_COORDINATOR
      (uploadedAssetIds asking_session) = Rejects"
    by (simp add: rejecting_env_def)
  have b: "callAIAgent error_env (trim (userInput asking_session)) DISCOVERY_COORDINATOR
      (uploadedAssetIds asking_session) = Resolves (error_reply question_payload)
      \<and> \<not> (AIAgentResponse.success (error_reply question_payload)
            \<and> status (response (error_reply question_payload)) = ''success'')"
    by (simp add: error_env_def error_reply_def)
  have c: "no_exchange (ToggleSection ''results'')"
    by simp
  have d: "uploadFiles upload_rejecting_env paper_pdf = Rejects"
    by (simp add: upload_rejecting_env_def)
  have e: "uploadFiles disk_full_env paper_pdf = Resolves ?full \<and> \<not> UploadResult.success ?full"
    by (simp add: disk_full_env_def)
  have g: "uploadFiles rejecting_env paper_pdf = Resolves ?ok \<and> UploadResult.success ?ok
      \<and> callAIAgent rejecting_env (initialMessage file_session) DISCOVERY_COORDINATOR
          (asset_ids ?ok) = Rejects"
    by (simp add: rejecting_env_def upload_ok_env_def)
  have h: "uploadFiles upload_ok_env paper_pdf = Resolves ?ok \<and> UploadResult.success ?ok
      \<and> callAIAgent upload_ok_env (initialMessage file_session) DISCOVERY_COORDINATOR
          (asset_ids ?ok) = Resolves (ok_reply question_payload)"
    by (simp add: upload_ok_env_def)
  have 1: "stage_writes (sendMessage rejecting_env asking_session) = []"
    using stage_progression [where s = asking_session and env = rejecting_env] a by blast
  have 2: "stage_writes (sendMessage error_env asking_session) = []"
    using stage_progression [where s = asking_session and env = error_env
        and r = "error_reply question_payload"] b by blast
  have 3: "stage_writes (handler (ToggleSection ''results'') asking_session) = []"
    using stage_progression [where s = asking_session and ev = "ToggleSection ''results''"] c
    by blast
  have 4: "stage_writes (analyzeDocument upload_rejecting_env file_session) = [uploading, idle]"
    using stage_progression [where s = file_session and env = upload_rejecting_env
        and f = paper_pdf] f d by blast
  have 5: "stage_writes (analyzeDocument disk_full_env file_session) = [uploading, idle]"
    using stage_progression [where s = file_session and env = disk_full_env and f = paper_pdf
        and u = ?full] f e by blast
  have 6: "stage_writes (analyzeDocument rejecting_env file_session)
      = [uploading, conversation, idle]"
    using stage_progression [where s = file_session and env = rejecting_env and f = paper_pdf
        and u = ?ok] f g by blast
  have 7: "stage_writes (analyzeDocument upload_ok_env file_session) = [uploading, conversation]"
    using stage_progression [where s = file_session and env = upload_ok_env and f = paper_pdf
        and u = ?ok and r = "ok_reply question_payload"] f h by blast
  have 8: "stage_rank (stage asking_session)
      \<le> stage_rank (stage (step (SendMessage results_env) asking_session))"
    using stage_progression [where s = asking_session and env = results_env] by blast
  have n: "pdfFile doi_session = None \<and> (doiInput doi_session \<noteq> [] \<or> arxivInput doi_session \<noteq> [])"
    by (simp add: doi_session_def step_def run_def initial_def)
  have 9: "stage_writes (analyzeDocument rejecting_env doi_session)
      = [uploading, conversation, idle]"
    using stage_progression [where s = doi_session and env = rejecting_env] n
    by (simp add: rejecting_env_def)
  have 10: "stage_writes (analyzeDocument upload_ok_env doi_session) = [uploading, conversation]"
    using stage_progression [where s = doi_session and env = upload_ok_env
        and r = "ok_reply question_payload"] n
    by (simp add: upload_ok_env_def)
  from 1 2 3 4 5 6 7 8 9 10 show ?thesis by simp
qed

text \<open>The claim as first stated fails: when the upload of \<^verbatim>\<open>paper.pdf\<close> reports
  \<^verbatim>\<open>disk full\<close>, \<^verbatim>\<open>analyzeDocument\<close> has set the stage to \<^verbatim>\<open>uploading\<close> and its
  failure path sets it back to \<^verbatim>\<open>idle\<close>, an earlier stage.\<close>

theorem upload_failure_regresses_counterexample:
  "stage_writes (analyzeDocument disk_full_env file_session) = [uploading, idle]
   \<and> stage_rank idle < stage_rank uploading"
  by (simp add: file_session_eq analyzeDocument_def disk_full_env_def)

section \<open>The Result Aggregator\<close>

text \<open>
  C2 (amended). For every successful coordinator reply whose payload contains an
  \<^verbatim>\<open>aggregated_results\<close> object, \<^verbatim>\<open>sendMessage\<close> sets the stage to \<^verbatim>\<open>analyzing\<close> and
  then to \<^verbatim>\<open>complete\<close>. Each of \<^verbatim>\<open>document_info\<close>, \<^verbatim>\<open>paper_analysis\<close> and
  \<^verbatim>\<open>recommendations\<close> replaces the held value when present and leaves it unchanged when
  absent. An absent \<^verbatim>\<open>summary\<close> leaves the key takeaways unchanged; a present one replaces
  them by its \<^verbatim>\<open>key_points\<close>, or by the empty list when it has none. An absent
  \<^verbatim>\<open>quality_validation\<close> leaves the quality score unchanged; a present one replaces it by
  its \<^verbatim>\<open>quality_score\<close>, or by no score when it has none.
\<close>

theorem sendMessage_aggregates_results:
  assumes "trim (userInput s) \<noteq> []" and "\<not> isLoading s"
    and "callAIAgent env (trim (userInput s)) DISCOVERY_COORDINATOR (uploadedAssetIds s) = Resolves r"
    and "AIAgentResponse.success r" and "status (response r) = ''success''"
    and "CoordinatorPayload.aggregated_results (result (response r)) = Some ar"
  shows "stage_writes (sendMessage env s) = [analyzing, complete]
    \<and> stage (step (SendMessage env) s) = complete
    \<and> documentInfo (step (SendMessage env) s) =
        (case AggregatedResults.document_info ar of None \<Rightarrow> documentInfo s | Some d \<Rightarrow> Some d)
    \<and> understanding (step (SendMessage env) s) =
        (case AggregatedResults.paper_analysis ar of None \<Rightarrow> understanding s | Some u \<Rightarrow> Some u)
    \<and> keyTakeaways (step (SendMessage env) s) =
        (case AggregatedResults.summary ar of
           None \<Rightarrow> keyTakeaways s
         | Some sm \<Rightarrow> (case summary_payload.key_points sm of None \<Rightarrow> [] | Some ks \<Rightarrow> ks))
    \<and> recommendations (step (SendMessage env) s) =
        (case AggregatedResults.recommendations ar of None \<Rightarrow> recommendations s | Some rs \<Rightarrow> rs)
    \<and> qualityScore (step (SendMessage env) s) =
        (case AggregatedResults.quality_validation ar of
           None \<Rightarrow> qualityScore s
         | Some q \<Rightarrow> quality_validation_payload.quality_score q)"
  using assms
  by (simp add: step_def sendMessage_def run_def aggregate_def Let_def split: option.splits)

theorem sendMessage_aggregates_results_witness:
  "stage_writes (sendMessage results_env asking_session) = [analyzing, complete]
   \<and> stage (step (SendMessage results_env) asking_session) = complete
   \<and> documentInfo (step (SendMessage results_env) asking_session) = Some attention_info
   \<and> understanding (step (SendMessage results_env) asking_session) = None
   \<and> keyTakeaways (step (SendMessage results_env) asking_session) = [attention_point]
   \<and> recommendations (step (SendMessage results_env) asking_session) = [bert]
   \<and> qualityScore (step (SendMessage results_env) asking_session) = Some (92 / 100)"
proof -
  have g: "trim (userInput asking_session) \<noteq> []" "\<not> isLoading asking_session"
    by (simp_all add: asking_session_eq trim_focus initial_def)
  have r: "callAIAgent results_env (trim (userInput asking_session)) DISCOVERY_COORDINATOR
      (uploadedAssetIds asking_session) = Resolves (ok_reply results_payload)"
    by (simp add: results_env_def upload_ok_env_def)
  have ok: "AIAgentResponse.success (ok_reply results_payload)"
    "status (response (ok_reply results_payload)) = ''success''"
    by (simp_all add: ok_reply_def)
  have ar: "CoordinatorPayload.aggregated_results (result (response (ok_reply results_payload)))
      = Some \<lparr>AggregatedResults.document_info = Some attention_info,
         AggregatedResults.paper_analysis = None,
         AggregatedResults.summary = Some \<lparr>summary_payload.key_points = Some [attention_point]\<rparr>,
         AggregatedResults.recommendations = Some [bert],
         AggregatedResults.quality_validation =
           Some \<lparr>quality_validation_payload.quality_score = Some (92 / 100)\<rparr>\<rparr>"
    by (simp add: ok_reply_def results_payload_def)
  show ?thesis
    using sendMessage_aggregates_results [OF g r ok ar]
    by (simp add: asking_session_eq initial_def)
qed

text \<open>The claim as first stated fails: with the key takeaways and the quality score of
  an earlier reply held, a successful reply whose aggregated results hold a summary
  without key points and a quality validation without a score empties the takeaways and
  removes the score, although both sub-fields are absent.\<close>

theorem absent_key_points_counterexample:
  "callAIAgent bare_env (trim (userInput complete_session)) DISCOVERY_COORDINATOR
     (uploadedAssetIds complete_session) = Resolves (ok_reply bare_payload)
   \<and> CoordinatorPayload.aggregated_results (result (response (ok_reply bare_payload)))
       = Some bare_results
   \<and> AggregatedResults.summary bare_results = Some bare_summary
   \<and> summary_payload.key_points bare_summary = None
   \<and> AggregatedResults.quality_validation bare_results = Some bare_validation
   \<and> quality_validation_payload.quality_score bare_validation = None
   \<and> stage (step (SendMessage bare_env) complete_session) = complete
   \<and> keyTakeaways complete_session = [attention_point]
   \<and> keyTakeaways (step (SendMessage bare_env) complete_session) = []
   \<and> qualityScore complete_session = Some (92 / 100)
   \<and> qualityScore (step (SendMessage bare_env) complete_session) = None"
  by (simp add: complete_session_eq step_def run_def sendMessage_def aggregate_def
      bare_env_def upload_ok_env_def bare_payload_def bare_results_def bare_summary_def
      bare_validation_def ok_reply_def trim_shorter initial_def Let_def)

section \<open>Replies without aggregated results\<close>

text \<open>
  C3. For every coordinator reply whose payload lacks an \<^verbatim>\<open>aggregated_results\<close> object,
  whatever its status, \<^verbatim>\<open>sendMessage\<close> does not write the stage and leaves the document
  info, the understanding, the key takeaways, the recommendations and the quality score
  as they were; the log grows by the user turn and one assistant turn. Of the other state
  cells only the draft input changes: it is emptied when the turn is sent.
\<close>

theorem sendMessage_without_results:
  assumes "trim (userInput s) \<noteq> []" and "\<not> isLoading s"
    and "callAIAgent env (trim (userInput s)) DISCOVERY_COORDINATOR (uploadedAssetIds s) = Resolves r"
    and "CoordinatorPayload.aggregated_results (result (response r)) = None"
  shows "stage_writes (sendMessage env s) = []
    \<and> stage (step (SendMessage env) s) = stage s
    \<and> documentInfo (step (SendMessage env) s) = documentInfo s
    \<and> understanding (step (SendMessage env) s) = understanding s
    \<and> keyTakeaways (step (SendMessage env) s) = keyTakeaways s
    \<and> recommendations (step (SendMessage env) s) = recommendations s
    \<and> qualityScore (step (SendMessage env) s) = qualityScore s
    \<and> step (SendMessage env) s =
      s\<lparr>userInput := [],
        chatMessages := chatMessages s @
          [\<lparr>role = user, content = trim (userInput s), timestamp = Some (clock env 0)\<rparr>,
           \<lparr>role = assistant,
            content =
              (if AIAgentResponse.success r \<and> status (response r) = ''success''
               then or_else (user_message (result (response r))) ''Processing your request...''
               else ''I encountered an issue processing your request. Please try again.''),
            timestamp = Some (clock env 1)\<rparr>]\<rparr>"
  using assms by (simp add: step_def sendMessage_def run_def Let_def)

theorem sendMessage_without_results_witness:
  "stage (step (SendMessage upload_ok_env) asking_session) = conversation
   \<and> documentInfo (step (SendMessage upload_ok_env) asking_session) = None
   \<and> chatMessages (step (SendMessage upload_ok_env) asking_session) =
       chatMessages asking_session @
       [\<lparr>role = user, content = ''Focus on methodology'', timestamp = Some 0\<rparr>,
        \<lparr>role = assistant, content = ''What would you like to focus on?'',
         timestamp = Some 1\<rparr>]"
proof -
  have g: "trim (userInput asking_session) \<noteq> []" "\<not> isLoading asking_session"
    by (simp_all add: asking_session_eq trim_focus initial_def)
  have r: "callAIAgent upload_ok_env (trim (userInput asking_session)) DISCOVERY_COORDINATOR
      (uploadedAssetIds asking_session) = Resolves (ok_reply question_payload)"
    by (simp add: upload_ok_env_def)
  have n: "CoordinatorPayload.aggregated_results (result (response (ok_reply question_payload)))
      = None"
    by (simp add: ok_reply_def question_payload_def)
  show ?thesis
    using sendMessage_without_results [OF g r n]
    by (simp add: asking_session_eq initial_def trim_focus ok_reply_def question_payload_def
        or_else_def upload_ok_env_def)
qed

section \<open>Asset references\<close>

text \<open>
  C4 (amended). Every coordinator call made by \<^verbatim>\<open>sendMessage\<close> carries exactly the asset
  references stored at that time, and \<^verbatim>\<open>sendMessage\<close> leaves the stored references as
  they are; so do all events but the session reset and \<^verbatim>\<open>analyzeDocument\<close>. Hence, once
  an upload has succeeded, every coordinator call of the analysis, the opening one and
  each later turn, carries the references of that upload for as long as no reset and no
  new \<^verbatim>\<open>analyzeDocument\<close> occur. An \<^verbatim>\<open>analyzeDocument\<close> whose upload succeeds replaces
  the stored references by the ones this upload returns; it does not add them to the ones
  held.
\<close>

theorem turns_carry_stored_assets:
  "(\<forall>c \<in> set (agent_calls (sendMessage env s)). snd (snd c) = uploadedAssetIds s)
   \<and> uploadedAssetIds (step (SendMessage env) s) = uploadedAssetIds s
   \<and> ((\<forall>ev \<in> set evs. within_analysis ev) \<longrightarrow>
        uploadedAssetIds (steps evs s) = uploadedAssetIds s
        \<and> (\<forall>c \<in> set (agent_calls (trace evs s)). snd (snd c) = uploadedAssetIds s))
   \<and> (pdfFile s = Some f \<and> uploadFiles env f = Resolves u \<and> UploadResult.success u \<longrightarrow>
        uploadedAssetIds (step (AnalyzeDocument env) s) = asset_ids u
        \<and> agent_calls (analyzeDocument env s) =
            [(initialMessage s, DISCOVERY_COORDINATOR, asset_ids u)])
   \<and> (pdfFile s = Some f \<and> uploadFiles env f = Resolves u \<and> UploadResult.success u
        \<and> (\<forall>ev \<in> set evs. within_analysis ev) \<longrightarrow>
        uploadedAssetIds (steps evs (step (AnalyzeDocument env) s)) = asset_ids u
        \<and> (\<forall>c \<in> set (agent_calls (trace (AnalyzeDocument env # evs) s)).
              snd (snd c) = asset_ids u))"
proof -
  have a: "(\<forall>c \<in> set (agent_calls (sendMessage env s)). snd (snd c) = uploadedAssetIds s)
      \<and> uploadedAssetIds (step (SendMessage env) s) = uploadedAssetIds s"
    using sendMessage_assets [of env s] by simp
  have b: "(\<forall>ev \<in> set evs. within_analysis ev) \<longrightarrow>
      uploadedAssetIds (steps evs s) = uploadedAssetIds s
      \<and> (\<forall>c \<in> set (agent_calls (trace evs s)). snd (snd c) = uploadedAssetIds s)"
    using trace_assets [of evs s] by blast
  have c: "pdfFile s = Some f \<and> uploadFiles env f = Resolves u \<and> UploadResult.success u \<longrightarrow>
      uploadedAssetIds (step (AnalyzeDocument env) s) = asset_ids u
      \<and> agent_calls (analyzeDocument env s) =
          [(initialMessage s, DISCOVERY_COORDINATOR, asset_ids u)]"
    using analyzeDocument_stores_assets [of s f env u] by blast
  have d: "pdfFile s = Some f \<and> uploadFiles env f = Resolves u \<and> UploadResult.success u
      \<and> (\<forall>ev \<in> set evs. within_analysis ev) \<longrightarrow>
      uploadedAssetIds (steps evs (step (AnalyzeDocument env) s)) = asset_ids u
      \<and> (\<forall>c \<in> set (agent_calls (trace (AnalyzeDocument env # evs) s)).
            snd (snd c) = asset_ids u)"
  proof
    assume h: "pdfFile s = Some f \<and> uploadFiles env f = Resolves u \<and> UploadResult.success u
      \<and> (\<forall>ev \<in> set evs. within_analysis ev)"
    then have 1: "uploadedAssetIds (step (AnalyzeDocument env) s) = asset_ids u
        \<and> agent_calls (analyzeDocument env s) =
            [(initialMessage s, DISCOVERY_COORDINATOR, asset_ids u)]"
      using analyzeDocument_stores_assets [of s f env u] by blast
    from h have 2: "uploadedAssetIds (steps evs (step (AnalyzeDocument env) s))
          = uploadedAssetIds (step (AnalyzeDocument env) s)
        \<and> (\<forall>c \<in> set (agent_calls (trace evs (step (AnalyzeDocument env) s))).
              snd (snd c) = uploadedAssetIds (step (AnalyzeDocument env) s))"
      using trace_assets [of evs "step (AnalyzeDocument env) s"] by blast
    from 1 2 show "uploadedAssetIds (steps evs (step (AnalyzeDocument env) s)) = asset_ids u
        \<and> (\<forall>c \<in> set (agent_calls (trace (AnalyzeDocument env # evs) s)).
              snd (snd c) = asset_ids u)"
      by (simp add: agent_calls_append)
  qed
  from a b c d show ?thesis by blast
qed

theorem turns_carry_stored_assets_witness:
  "agent_calls
     (trace [AnalyzeDocument upload_ok_env, ChangeUserInput ''Focus on methodology'',
        SendMessage results_env, ChangeUserInput ''Shorter please'', SendMessage error_env]
        file_session) =
     [(''I've uploaded a research paper (PDF: paper.pdf). Please help me analyze it.'',
       DISCOVERY_COORDINATOR, [''a1'']),
      (''Focus on methodology'', DISCOVERY_COORDINATOR, [''a1'']),
      (''Shorter please'', DISCOVERY_COORDINATOR, [''a1''])]
   \<and> uploadedAssetIds (step (AnalyzeDocument second_upload_env) failed_upload_session) = [''a2'']"
proof -
  let ?ok = "\<lparr>UploadResult.success = True, asset_ids = [''a1''], error = None\<rparr>"
  let ?second = "\<lparr>UploadResult.success = True, asset_ids = [''a2''], error = None\<rparr>"
  let ?evs = "[ChangeUserInput ''Focus on methodology'', SendMessage results_env,
      ChangeUserInput ''Shorter please'', SendMessage error_env]"
  have f: "pdfFile file_session = Some paper_pdf \<and> uploadFiles upload_ok_env paper_pdf = Resolves ?ok
      \<and> UploadResult.success ?ok \<and> (\<forall>ev \<in> set ?evs. within_analysis ev)"
    by (simp add: file_session_eq upload_ok_env_def)
  have g: "pdfFile failed_upload_session = Some paper_pdf
      \<and> uploadFiles second_upload_env paper_pdf = Resolves ?second \<and> UploadResult.success ?second"
    by (simp add: failed_upload_session_def file_session_eq step_def run_def analyzeDocument_def
        disk_full_env_def second_upload_env_def)
  have a: "step (ChangeUserInput ''Focus on methodology'')
      (step (AnalyzeDocument upload_ok_env) file_session) = asking_session"
    by (simp add: asking_session_def)
  have b: "step (ChangeUserInput ''Shorter please'') (step (SendMessage results_env) asking_session)
      = complete_session"
    by (simp add: complete_session_def)
  have 1: "\<forall>c \<in> set (agent_calls (trace (AnalyzeDocument upload_ok_env # ?evs) file_session)).
      snd (snd c) = asset_ids ?ok"
    using turns_carry_stored_assets [where s = file_session and env = upload_ok_env
        and f = paper_pdf and u = ?ok and evs = ?evs] f by blast
  have 2: "uploadedAssetIds (step (AnalyzeDocument second_upload_env) failed_upload_session)
      = asset_ids ?second"
    using turns_carry_stored_assets [where s = failed_upload_session and env = second_upload_env
        and f = paper_pdf and u = ?second] g by blast
  have 3: "map (fst \<circ> snd) (agent_calls (trace (AnalyzeDocument upload_ok_env # ?evs) file_session))
      = [DISCOVERY_COORDINATOR, DISCOVERY_COORDINATOR, DISCOVERY_COORDINATOR]
    \<and> map fst (agent_calls (trace (AnalyzeDocument upload_ok_env # ?evs) file_session))
      = [''I've uploaded a research paper (PDF: paper.pdf). Please help me analyze it.'',
         ''Focus on methodology'', ''Shorter please'']"
    by (simp add: a b agent_calls_append)
      (simp add: asking_session_eq complete_session_eq file_session_eq analyzeDocument_def
        analyzeDocument_conversation_def initialMessage_def sendMessage_def aggregate_def
        upload_ok_env_def results_env_def error_env_def ok_reply_def error_reply_def
        results_payload_def question_payload_def paper_pdf_def trim_focus trim_shorter
        initial_def Let_def)
  obtain c1 c2 c3 where cs:
    "agent_calls (trace (AnalyzeDocument upload_ok_env # ?evs) file_session) = [c1, c2, c3]"
    using 3 by (auto simp: map_eq_Cons_conv)
  from 1 3 cs have "c1 = (''I've uploaded a research paper (PDF: paper.pdf). Please help me analyze it.'',
        DISCOVERY_COORDINATOR, [''a1''])
      \<and> c2 = (''Focus on methodology'', DISCOVERY_COORDINATOR, [''a1''])
      \<and> c3 = (''Shorter please'', DISCOVERY_COORDINATOR, [''a1''])"
    by (auto simp: prod_eq_iff)
  with cs 2 show ?thesis by simp
qed

text \<open>The claim as first stated fails: the upload succeeds with \<^verbatim>\<open>a1\<close> and the opening
  coordinator call throws, which puts the page back at the intake form with the file and
  the stored reference kept; the retry uploads again, which stores \<^verbatim>\<open>a2\<close> in place of
  \<^verbatim>\<open>a1\<close>, and the later call of \<^verbatim>\<open>sendMessage\<close> carries \<^verbatim>\<open>a2\<close> only.\<close>

theorem retry_replaces_assets_counterexample:
  "stage (step (AnalyzeDocument rejecting_env) file_session) = idle
   \<and> pdfFile (step (AnalyzeDocument rejecting_env) file_session) = Some paper_pdf
   \<and> uploadedAssetIds (step (AnalyzeDocument rejecting_env) file_session) = [''a1'']
   \<and> map (snd \<circ> snd)
        (agent_calls
           (trace [AnalyzeDocument rejecting_env, AnalyzeDocument second_upload_env,
              ChangeUserInput ''Focus on methodology'', SendMessage second_upload_env]
              file_session)) =
       [[''a1''], [''a2''], [''a2'']]"
  by (simp add: file_session_eq step_def run_def analyzeDocument_def
      analyzeDocument_conversation_def analyzeDocument_catch_def sendMessage_def
      rejecting_env_def second_upload_env_def upload_ok_env_def ok_reply_def question_payload_def
      paper_pdf_def trim_focus initial_def agent_calls_append Let_def)

section \<open>Upload failure\<close>

text \<open>
  C5. Whenever the upload transport reports failure (\<^verbatim>\<open>{success: false, error}\<close>),
  \<^verbatim>\<open>analyzeDocument\<close> ends at stage \<^verbatim>\<open>idle\<close>, the log consists of exactly one
  assistant turn, which quotes the reported error, and the invocation makes no coordinator
  call.
\<close>

theorem upload_failure_returns_to_idle:
  assumes "pdfFile s = Some f" and "uploadFiles env f = Resolves u"
    and "\<not> UploadResult.success u"
  shows "stage (step (AnalyzeDocument env) s) = idle
    \<and> chatMessages (step (AnalyzeDocument env) s) =
        [\<lparr>role = assistant,
          content = ''Failed to upload PDF: '' @ template_string (error u) @ ''. Please try again.'',
          timestamp = Some (clock env 0)\<rparr>]
    \<and> agent_calls (analyzeDocument env s) = []"
  using assms by (simp add: step_def analyzeDocument_def run_def)

theorem upload_failure_returns_to_idle_witness:
  "stage (step (AnalyzeDocument disk_full_env) file_session) = idle
   \<and> chatMessages (step (AnalyzeDocument disk_full_env) file_session) =
       [\<lparr>role = assistant, content = ''Failed to upload PDF: disk full. Please try again.'',
         timestamp = Some 0\<rparr>]
   \<and> agent_calls (analyzeDocument disk_full_env file_session) = []
   \<and> string_includes ''Failed to upload PDF: disk full. Please try again.'' ''disk full''"
proof -
  have f: "pdfFile file_session = Some paper_pdf"
    by (simp add: file_session_eq)
  have u: "uploadFiles disk_full_env paper_pdf =
      Resolves \<lparr>UploadResult.success = False, asset_ids = [], error = Some ''disk full''\<rparr>"
    by (simp add: disk_full_env_def)
  have n: "\<not> UploadResult.success
      \<lparr>UploadResult.success = False, asset_ids = [], error = Some ''disk full''\<rparr>"
    by simp
  show ?thesis
    using upload_failure_returns_to_idle [OF f u n]
    by (simp add: template_string_def disk_full_env_def)
qed

section \<open>The loading flag\<close>

text \<open>
  C6. The loading flag set at the start of a coordinator call is to be cleared on every
  outcome of the call. \<^verbatim>\<open>sendMessage\<close> of both pages and \<^verbatim>\<open>analyzeDocument\<close> do so (see
  the auxiliary facts); \<^verbatim>\<open>analyzeForm\<close>, which sends the opening turn of the pipeline
  page, clears the flag inside its success branch and in its \<^verbatim>\<open>catch\<close> block only. With
  a DOI typed in and a reply of status \<^verbatim>\<open>error\<close>, the call is made and the flag is still
  set when \<^verbatim>\<open>analyzeForm\<close> returns.
\<close>

theorem analyzeForm_soft_failure_keeps_loading:
  "pipeline_agent_calls (analyzeForm soft_failure_agent doi_pipeline) =
     [(''I've uploaded a paper (DOI: 10.1000/182). Please help me analyze it.'',
       DISCOVERY_COORDINATOR)]
   \<and> soft_failure_agent ''I've uploaded a paper (DOI: 10.1000/182). Please help me analyze it.''
       DISCOVERY_COORDINATOR = Resolves (error_reply empty_result)
   \<and> status (response (error_reply empty_result)) = ''error''
   \<and> pipeline.isLoading (run_pipeline doi_pipeline (analyzeForm soft_failure_agent doi_pipeline))"
  by (simp add: analyzeForm_def run_pipeline_def doi_pipeline_def initial_pipeline_def
      soft_failure_agent_def error_reply_def initialMessage_p_def)

section \<open>Submitting without a reference\<close>

text \<open>
  C7 (amended). In every intake state in which no file is held and the DOI and arXiv fields
  are the empty string, submitting does nothing at all, on either page, so it makes no
  coordinator call. The fields are compared as typed, not trimmed: when no file is held
  and one of the two fields is not the empty string, be it white space only, the
  submission goes ahead and calls the coordinator with the opening message.
\<close>

theorem submit_without_reference:
  "(pdfFile s = None \<and> doiInput s = [] \<and> arxivInput s = [] \<longrightarrow> analyzeDocument env s = [])
   \<and> (pipeline.pdfFile p = None \<and> pipeline.doiInput p = [] \<and> pipeline.arxivInput p = []
        \<longrightarrow> analyzeForm agent p = [])
   \<and> (pdfFile s = None \<and> (doiInput s \<noteq> [] \<or> arxivInput s \<noteq> [])
        \<longrightarrow> agent_calls (analyzeDocument env s) = [(initialMessage s, DISCOVERY_COORDINATOR, [])])
   \<and> (pipeline.pdfFile p \<noteq> None \<or> pipeline.doiInput p \<noteq> [] \<or> pipeline.arxivInput p \<noteq> []
        \<longrightarrow> pipeline_agent_calls (analyzeForm agent p) = [(initialMessage_p p, DISCOVERY_COORDINATOR)])"
proof -
  have a: "pdfFile s = None \<and> doiInput s = [] \<and> arxivInput s = [] \<longrightarrow> analyzeDocument env s = []"
    by (simp add: analyzeDocument_def)
  have b: "pipeline.pdfFile p = None \<and> pipeline.doiInput p = [] \<and> pipeline.arxivInput p = []
      \<longrightarrow> analyzeForm agent p = []"
    by (simp add: analyzeForm_def)
  have c: "pdfFile s = None \<and> (doiInput s \<noteq> [] \<or> arxivInput s \<noteq> [])
      \<longrightarrow> agent_calls (analyzeDocument env s) = [(initialMessage s, DISCOVERY_COORDINATOR, [])]"
    by (auto simp add: analyzeDocument_def analyzeDocument_conversation_def
        analyzeDocument_catch_def split: outcome.splits)
  have d: "pipeline.pdfFile p \<noteq> None \<or> pipeline.doiInput p \<noteq> [] \<or> pipeline.arxivInput p \<noteq> []
      \<longrightarrow> pipeline_agent_calls (analyzeForm agent p) = [(initialMessage_p p, DISCOVERY_COORDINATOR)]"
    by (auto simp add: analyzeForm_def split: outcome.splits)
  from a b c d show ?thesis by blast
qed

theorem submit_without_reference_witness:
  "analyzeDocument upload_ok_env initial = []
   \<and> analyzeForm soft_failure_agent initial_pipeline = []
   \<and> agent_calls (analyzeDocument upload_ok_env blank_doi_session) =
       [(initialMessage blank_doi_session, DISCOVERY_COORDINATOR, [])]
   \<and> pipeline_agent_calls (analyzeForm soft_failure_agent doi_pipeline) =
       [(initialMessage_p doi_pipeline, DISCOVERY_COORDINATOR)]"
  using submit_without_reference [of initial upload_ok_env initial_pipeline soft_failure_agent]
    submit_without_reference [of blank_doi_session upload_ok_env doi_pipeline soft_failure_agent]
  by (simp add: initial_def initial_pipeline_def blank_doi_session_def doi_pipeline_def
      step_def run_def)

text \<open>The claim as first stated fails: with no file, an arXiv field that is empty and a
  DOI field that holds one space, hence is empty after trimming, submitting calls the
  coordinator.\<close>

theorem blank_doi_counterexample:
  "pdfFile blank_doi_session = None
   \<and> trim (doiInput blank_doi_session) = []
   \<and> trim (arxivInput blank_doi_session) = []
   \<and> agent_calls (analyzeDocument upload_ok_env blank_doi_session) =
       [(''I've uploaded a research paper (DOI:  ). Please help me analyze it.'',
         DISCOVERY_COORDINATOR, [])]"
  by (simp add: blank_doi_session_def step_def run_def initial_def trim_def is_white_space_def
      analyzeDocument_def analyzeDocument_conversation_def initialMessage_def upload_ok_env_def
      ok_reply_def)

section \<open>The conversation log\<close>

text \<open>
  C8 (amended). The log is append-only under every operation other than the session reset
  and \<^verbatim>\<open>analyzeDocument\<close>: the turns held before the operation are a prefix of the log
  after it, also over any sequence of such operations; \<^verbatim>\<open>sendMessage\<close>, when it sends,
  appends the user turn and one assistant turn, and the handlers without an exchange leave
  the log as it is. \<^verbatim>\<open>analyzeDocument\<close>, when a reference is held, starts the log afresh:
  the log after it has one or two turns and does not depend on the log before it.
\<close>

theorem log_append_only:
  "(within_analysis ev \<longrightarrow> prefix (chatMessages s) (chatMessages (step ev s)))
   \<and> (no_exchange ev \<longrightarrow> chatMessages (step ev s) = chatMessages s)
   \<and> (trim (userInput s) \<noteq> [] \<and> \<not> isLoading s \<longrightarrow>
        (\<exists>u a. chatMessages (step (SendMessage env) s) = chatMessages s @ [u, a]
           \<and> role u = user \<and> content u = trim (userInput s) \<and> role a = assistant))
   \<and> ((\<forall>e \<in> set evs. within_analysis e) \<longrightarrow>
        prefix (chatMessages s) (chatMessages (steps evs s)))
   \<and> (\<not> (pdfFile s = None \<and> doiInput s = [] \<and> arxivInput s = []) \<longrightarrow>
        chatMessages (step (AnalyzeDocument env) s) =
          chatMessages (step (AnalyzeDocument env) (s\<lparr>chatMessages := []\<rparr>))
        \<and> length (chatMessages (step (AnalyzeDocument env) s)) \<in> {1, 2})"
proof -
  have a: "within_analysis ev \<longrightarrow> prefix (chatMessages s) (chatMessages (step ev s))"
    by (simp add: within_analysis_prefix)
  have b: "no_exchange ev \<longrightarrow> chatMessages (step ev s) = chatMessages s"
    using no_exchange_effects [of ev s] by blast
  have c: "trim (userInput s) \<noteq> [] \<and> \<not> isLoading s \<longrightarrow>
      (\<exists>u a. chatMessages (step (SendMessage env) s) = chatMessages s @ [u, a]
         \<and> role u = user \<and> content u = trim (userInput s) \<and> role a = assistant)"
    by (simp add: step_def sendMessage_def run_def aggregate_def Let_def
        split: outcome.splits option.splits)
  have d: "(\<forall>e \<in> set evs. within_analysis e) \<longrightarrow>
      prefix (chatMessages s) (chatMessages (steps evs s))"
    by (simp add: within_analysis_steps_prefix)
  have e: "\<not> (pdfFile s = None \<and> doiInput s = [] \<and> arxivInput s = []) \<longrightarrow>
      chatMessages (step (AnalyzeDocument env) s) =
        chatMessages (step (AnalyzeDocument env) (s\<lparr>chatMessages := []\<rparr>))
      \<and> length (chatMessages (step (AnalyzeDocument env) s)) \<in> {1, 2}"
    using analyzeDocument_fresh_log [of s env] by blast
  from a b c d e show ?thesis by blast
qed

theorem log_append_only_witness:
  "prefix (chatMessages asking_session)
     (chatMessages (step (SendMessage rejecting_env) asking_session))
   \<and> chatMessages (step (ToggleSection ''results'') asking_session) = chatMessages asking_session
   \<and> length (chatMessages (step (SendMessage results_env) asking_session)) = 4
   \<and> prefix (chatMessages asking_session)
       (chatMessages
          (steps [SendMessage results_env, ChangeUserInput ''Shorter please'',
             SendMessage error_env] asking_session))
   \<and> length (chatMessages (step (AnalyzeDocument upload_ok_env) failed_upload_session)) \<in> {1, 2}"
proof -
  have g: "trim (userInput asking_session) \<noteq> [] \<and> \<not> isLoading asking_session"
    by (simp add: asking_session_eq trim_focus initial_def)
  have n: "length (chatMessages asking_session) = 2"
    by (simp add: asking_session_eq initial_def)
  have evs: "\<forall>e \<in> set [SendMessage results_env, ChangeUserInput ''Shorter please'',
      SendMessage error_env]. within_analysis e"
    by simp
  have f: "\<not> (pdfFile failed_upload_session = None \<and> doiInput failed_upload_session = []
      \<and> arxivInput failed_upload_session = [])"
    by (simp add: failed_upload_session_def file_session_eq step_def run_def analyzeDocument_def
        disk_full_env_def)
  have 1: "prefix (chatMessages asking_session)
      (chatMessages (step (SendMessage rejecting_env) asking_session))"
    using log_append_only [where ev = "SendMessage rejecting_env" and s = asking_session]
    by simp
  have 2: "chatMessages (step (ToggleSection ''results'') asking_session)
      = chatMessages asking_session"
    using log_append_only [where ev = "ToggleSection ''results''" and s = asking_session]
    by simp
  have 3: "length (chatMessages (step (SendMessage results_env) asking_session)) = 4"
  proof -
    from log_append_only [where s = asking_session and env = results_env] g
    obtain u a where "chatMessages (step (SendMessage results_env) asking_session)
        = chatMessages asking_session @ [u, a]"
      by blast
    then show ?thesis using n by simp
  qed
  have 4: "prefix (chatMessages asking_session)
      (chatMessages
         (steps [SendMessage results_env, ChangeUserInput ''Shorter please'',
            SendMessage error_env] asking_session))"
    using log_append_only [where s = asking_session
        and evs = "[SendMessage results_env, ChangeUserInput ''Shorter please'',
          SendMessage error_env]"] evs by blast
  have 5: "length (chatMessages (step (AnalyzeDocument upload_ok_env) failed_upload_session))
      \<in> {1, 2}"
    using log_append_only [where s = failed_upload_session and env = upload_ok_env] f by blast
  from 1 2 3 4 5 show ?thesis by simp
qed

text \<open>The claim as first stated fails: after a failed upload the log holds the failure
  notice; on the retry \<^verbatim>\<open>analyzeDocument\<close> replaces the log by the turns of the new
  exchange, and the notice is gone.\<close>

theorem retry_discards_log_counterexample:
  "chatMessages failed_upload_session =
     [\<lparr>role = assistant, content = ''Failed to upload PDF: disk full. Please try again.'',
       timestamp = Some 0\<rparr>]
   \<and> chatMessages (step (AnalyzeDocument upload_ok_env) failed_upload_session) =
     [\<lparr>role = user,
       content = ''I've uploaded a research paper (PDF: paper.pdf). Please help me analyze it.'',
       timestamp = Some 0\<rparr>,
      \<lparr>role = assistant, content = ''What would you like to focus on?'', timestamp = Some 1\<rparr>]
   \<and> \<not> prefix (chatMessages failed_upload_session)
        (chatMessages (step (AnalyzeDocument upload_ok_env) failed_upload_session))"
  by (simp add: failed_upload_session_def file_session_eq step_def run_def analyzeDocument_def
      analyzeDocument_conversation_def initialMessage_def disk_full_env_def upload_ok_env_def
      ok_reply_def question_payload_def or_else_def template_string_def paper_pdf_def
      initial_def)

section \<open>Export\<close>

text \<open>
  C9 (amended). On the five-stage page the export produces no artifact when no document
  info is held; when one is held it produces one file, named after the title, whose text,
  however the runtime renders numbers, starts with \<^verbatim>\<open>#\<close>, a space, the title and an
  empty line, so that the first line is \<^verbatim>\<open>#\<close>, a space and the title whenever the
  title has no line break. On the pipeline
  page the export depends on the held summary instead: it produces no artifact when no
  summary is held, and otherwise the file \<^verbatim>\<open>summary.md\<close> whose first line is the fixed
  heading \<^verbatim>\<open># Research Paper Summary\<close>.
\<close>

theorem export_artifact:
  "(documentInfo s = None \<longrightarrow> exportSummary number_to_string s = [])
   \<and> (documentInfo s = Some d \<longrightarrow>
        (\<exists>rest. downloads (exportSummary number_to_string s) =
           [(map (\<lambda>c. if is_alphanumeric c then c else CHR ''_'') (DocumentInfo.title d) @
               ''_summary.md'',
             ''# '' @ DocumentInfo.title d @ ''\<newline>\<newline>'' @ rest)]))
   \<and> (documentInfo s = Some d \<and> CHR 0x0A \<notin> set (DocumentInfo.title d) \<longrightarrow>
        map (first_line \<circ> snd) (downloads (exportSummary number_to_string s)) = [''# '' @ DocumentInfo.title d])
   \<and> (summaryResult p = None \<longrightarrow> exportSummary_p p = [])
   \<and> (summaryResult p = Some sr \<longrightarrow>
        map fst (pipeline_downloads (exportSummary_p p)) = [''summary.md'']
        \<and> map (first_line \<circ> snd) (pipeline_downloads (exportSummary_p p)) =
            [''# Research Paper Summary''])"
proof -
  have a: "documentInfo s = None \<longrightarrow> exportSummary number_to_string s = []"
    by (simp add: exportSummary_def)
  have b: "documentInfo s = Some d \<longrightarrow>
      (\<exists>rest. downloads (exportSummary number_to_string s) =
         [(map (\<lambda>c. if is_alphanumeric c then c else CHR ''_'') (DocumentInfo.title d) @
             ''_summary.md'',
           ''# '' @ DocumentInfo.title d @ ''\<newline>\<newline>'' @ rest)])"
    by (simp add: exportSummary_def export_content_def)
  have c: "documentInfo s = Some d \<and> CHR 0x0A \<notin> set (DocumentInfo.title d) \<longrightarrow>
      map (first_line \<circ> snd) (downloads (exportSummary number_to_string s)) = [''# '' @ DocumentInfo.title d]"
  proof
    assume h: "documentInfo s = Some d \<and> CHR 0x0A \<notin> set (DocumentInfo.title d)"
    then have n: "CHR 0x0A \<notin> set (''# '' @ DocumentInfo.title d)" by simp
    obtain rest where r: "export_content number_to_string d s =
        (''# '' @ DocumentInfo.title d) @ CHR 0x0A # rest"
      by (simp add: export_content_def)
    show "map (first_line \<circ> snd) (downloads (exportSummary number_to_string s)) = [''# '' @ DocumentInfo.title d]"
      using h first_line_heading [OF n, of rest] by (simp add: exportSummary_def r)
  qed
  have d: "summaryResult p = None \<longrightarrow> exportSummary_p p = []"
    by (simp add: exportSummary_p_def)
  have e: "summaryResult p = Some sr \<longrightarrow>
      map fst (pipeline_downloads (exportSummary_p p)) = [''summary.md'']
      \<and> map (first_line \<circ> snd) (pipeline_downloads (exportSummary_p p)) =
          [''# Research Paper Summary'']"
    by (simp add: exportSummary_p_def first_line_def)
  from a b c d e show ?thesis by blast
qed

theorem export_artifact_witness:
  "exportSummary plain_rendering asking_session = []
   \<and> map (first_line \<circ> snd) (downloads (exportSummary plain_rendering complete_session)) =
       [''# Attention Is All You Need'']
   \<and> map fst (downloads (exportSummary plain_rendering complete_session)) =
       [''Attention_Is_All_You_Need_summary.md'']
   \<and> exportSummary_p doi_pipeline = []
   \<and> map (first_line \<circ> snd) (pipeline_downloads (exportSummary_p scripted_pipeline)) =
       [''# Research Paper Summary'']"
proof -
  have n: "documentInfo asking_session = None"
    by (simp add: asking_session_eq initial_def)
  have d: "documentInfo complete_session = Some attention_info"
    by (simp add: complete_session_eq initial_def)
  have t: "CHR 0x0A \<notin> set (DocumentInfo.title attention_info)"
    by (simp add: attention_info_def)
  have p: "summaryResult doi_pipeline = None"
    by (simp add: doi_pipeline_def initial_pipeline_def)
  have q: "summaryResult scripted_pipeline = Some mockSummary"
    by (simp add: scripted_pipeline_results)
  show ?thesis
    using export_artifact [where s = asking_session and number_to_string = plain_rendering
        and d = attention_info and p = doi_pipeline and sr = mockSummary]
      export_artifact [where s = complete_session and number_to_string = plain_rendering
        and d = attention_info and p = scripted_pipeline and sr = mockSummary]
      n d t p q
    by (auto simp add: attention_info_def is_alphanumeric_def)
qed

text \<open>The claim as first stated fails on the pipeline page: after the scripted pipeline
  has run, the document info with the title \<^verbatim>\<open>Attention Is All You Need\<close> is held, and
  the first line of the exported text is the fixed heading, which does not contain the
  title.\<close>

theorem pipeline_export_counterexample:
  "pipeline.documentInfo scripted_pipeline = Some mockDoc
   \<and> DocumentIngestionResult.title mockDoc = ''Attention Is All You Need''
   \<and> map (first_line \<circ> snd) (pipeline_downloads (exportSummary_p scripted_pipeline)) =
       [''# Research Paper Summary'']
   \<and> \<not> string_includes ''# Research Paper Summary'' ''Attention Is All You Need''"
  by (simp add: scripted_pipeline_results exportSummary_p_def first_line_def mockDoc_def)

section \<open>Disclosure sections\<close>

text \<open>
  C10. For every section key \<open>k\<close> and every set of expanded sections, \<^verbatim>\<open>toggleSection\<close>
  flips the membership of \<open>k\<close> and of no other key, and toggling \<open>k\<close> twice gives the
  state back; the second toggle is the handler of the re-rendered page, so it reads the
  set the first one wrote. Both pages have the same handler.
\<close>

theorem toggleSection_flips_membership:
  "(x \<in> expandedSections (run s (toggleSection k s))) = ((x \<in> expandedSections s) \<noteq> (x = k))
   \<and> run (run s (toggleSection k s)) (toggleSection k (run s (toggleSection k s))) = s
   \<and> (x \<in> pipeline.expandedSections (run_pipeline p (toggleSection_p k p)))
        = ((x \<in> pipeline.expandedSections p) \<noteq> (x = k))
   \<and> run_pipeline (run_pipeline p (toggleSection_p k p))
         (toggleSection_p k (run_pipeline p (toggleSection_p k p))) = p"
proof -
  have a: "(x \<in> expandedSections (run s (toggleSection k s)))
      = ((x \<in> expandedSections s) \<noteq> (x = k))"
    by (auto simp: run_def toggleSection_def Let_def)
  have b: "run (run s (toggleSection k s)) (toggleSection k (run s (toggleSection k s))) = s"
    by (auto simp: run_def toggleSection_def Let_def insert_absorb)
  have c: "(x \<in> pipeline.expandedSections (run_pipeline p (toggleSection_p k p)))
      = ((x \<in> pipeline.expandedSections p) \<noteq> (x = k))"
    by (auto simp: run_pipeline_def toggleSection_p_def Let_def)
  have d: "run_pipeline (run_pipeline p (toggleSection_p k p))
      (toggleSection_p k (run_pipeline p (toggleSection_p k p))) = p"
    by (auto simp: run_pipeline_def toggleSection_p_def Let_def insert_absorb)
  from a b c d show ?thesis by blast
qed

theorem toggleSection_flips_membership_witness:
  "''problem'' \<notin> expandedSections (run initial (toggleSection ''problem'' initial))
   \<and> ''results'' \<in> pipeline.expandedSections
        (run_pipeline initial_pipeline (toggleSection_p ''results'' initial_pipeline))
   \<and> run (run initial (toggleSection ''problem'' initial))
        (toggleSection ''problem'' (run initial (toggleSection ''problem'' initial))) = initial"
  using toggleSection_flips_membership [where x = "''problem''" and s = initial
      and k = "''problem''" and p = initial_pipeline]
    toggleSection_flips_membership [where x = "''results''" and s = initial
      and k = "''results''" and p = initial_pipeline]
  by (simp add: initial_def initial_pipeline_def)

end
